theory Spec2Isabelle
  imports Main "HOL-Library.Finite_Map" "HOL-Library.Char_ord" "HOL-Library.List_Lexorder"
begin

section \<open>The Metal3DataTemplate manager (baremetal/metal3datatemplate\_manager.go)\<close>

text \<open>
  A shallow embedding of \<^verbatim>\<open>DataTemplateManager\<close>: the status reconstruction
  (\<^verbatim>\<open>RecreateStatus\<close>), the creation pass (\<^verbatim>\<open>CreateDatas\<close>), the deletion pass
  (\<^verbatim>\<open>DeleteDatas\<close>) and the deletion readiness check (\<^verbatim>\<open>DeleteReady\<close>).
  The Go methods mutate the manager in place and return an \<^verbatim>\<open>error\<close>; here each one
  takes the manager and returns the error (\<open>None\<close> for \<^verbatim>\<open>nil\<close>) together with the manager
  as the call leaves it, also when the error is not \<^verbatim>\<open>nil\<close>.
\<close>

subsection \<open>Errors\<close>

text \<open>
  The error values the manager tells apart: \<^verbatim>\<open>RequeueAfterError\<close> (the one type that
  implements \<^verbatim>\<open>HasRequeueAfterError\<close>; its field is the delay), the API server's
  "not found" status (what \<^verbatim>\<open>apierrors.IsNotFound\<close> recognises), and every other error,
  with its message.
\<close>

datatype error = RequeueAfterError nat | NotFound | Other string

fun HasRequeueAfterError :: "error \<Rightarrow> bool" where
  "HasRequeueAfterError (RequeueAfterError _) = True"
| "HasRequeueAfterError _ = False"

fun IsNotFound :: "error \<Rightarrow> bool" where
  "IsNotFound NotFound = True"
| "IsNotFound _ = False"

subsection \<open>Objects\<close>

text \<open>
  A Go \<^verbatim>\<open>map[string]string\<close> that is not \<^verbatim>\<open>nil\<close> is a finite map; the two status maps
  may be \<^verbatim>\<open>nil\<close>, so they are optional.
\<close>

type_synonym gomap = "(string, string) fmap"

record GroupVersion =
  Group :: string
  Version :: string

record OwnerReference =
  orAPIVersion :: string
  orKind :: string
  orName :: string
  orUID :: string
  orController :: "bool option"

record ObjectReference =
  refName :: string
  refNamespace :: string

record Metal3DataSpec =
  specIndex :: int
  specDataTemplate :: "ObjectReference option"
  specMetal3Machine :: "ObjectReference option"

record Metal3Data =
  dataKind :: string
  dataAPIVersion :: string
  dataName :: string
  dataNamespace :: string
  dataLabels :: gomap
  dataOwnerReferences :: "OwnerReference list"
  dataSpec :: Metal3DataSpec

record Metal3Machine =
  machineName :: string
  machineNamespace :: string
  machineDataTemplate :: "ObjectReference option"

record Metal3DataTemplateStatus =
  Indexes :: "gomap option"
  DataNames :: "gomap option"
  LastUpdated :: "nat option"

record Metal3DataTemplate =
  tplAPIVersion :: string
  tplKind :: string
  tplName :: string
  tplNamespace :: string
  tplUID :: string
  tplLabels :: gomap
  tplOwnerReferences :: "OwnerReference list"
  Status :: Metal3DataTemplateStatus

text \<open>
  The manager holds the template and the client. The state the client talks to is a value
  of any type \<open>'w\<close>. \<open>clock\<close> is the wall clock that \<^verbatim>\<open>metav1.Now()\<close> reads, as a
  logical clock: it counts the readings, so the number of timestamp updates of a pass is
  the difference of the clock.
\<close>

record 'w DataTemplateManager =
  client :: 'w
  DataTemplate :: Metal3DataTemplate
  clock :: nat

subsection \<open>Collaborators\<close>

text \<open>
  What the manager calls and this file does not define is a parameter: the client's
  \<^verbatim>\<open>List\<close>, \<^verbatim>\<open>Get\<close> and \<^verbatim>\<open>Delete\<close>, the package's helpers \<^verbatim>\<open>getM3Machine\<close> and
  \<^verbatim>\<open>createObject\<close>, the library's \<^verbatim>\<open>schema.ParseGroupVersion\<close>, and the order in which
  the Go runtime visits the entries of a map in a \<^verbatim>\<open>range\<close> loop. Every call on the
  client may change the state it talks to (other reconciliation passes run against it),
  so each returns the state it leaves.
\<close>

record 'w deps =
  ParseGroupVersion :: "string \<Rightarrow> error + GroupVersion"
  clientList :: "'w \<Rightarrow> string \<Rightarrow> (error + Metal3Data list) \<times> 'w"
  clientGet :: "'w \<Rightarrow> string \<times> string \<Rightarrow> (error + Metal3Data) \<times> 'w"
  clientDelete :: "'w \<Rightarrow> Metal3Data \<Rightarrow> error option \<times> 'w"
  getM3Machine ::
    "'w \<Rightarrow> string \<Rightarrow> string \<Rightarrow> Metal3DataTemplate \<Rightarrow> bool \<Rightarrow> (error + Metal3Machine option) \<times> 'w"
  createObject :: "'w \<Rightarrow> Metal3Data \<Rightarrow> error option \<times> 'w"
  rangeOrder :: "gomap \<Rightarrow> (string \<times> string) list"


text \<open>The constants of the API packages: \<^verbatim>\<open>capm3.GroupVersion\<close> and
  \<^verbatim>\<open>capi.ClusterLabelName\<close>.\<close>

definition capm3_GroupVersion :: GroupVersion where
  "capm3_GroupVersion = \<lparr>Group = ''infrastructure.cluster.x-k8s.io'', Version = ''v1alpha4''\<rparr>"

definition GroupVersion_String :: "GroupVersion \<Rightarrow> string" where
  "GroupVersion_String gv = (if Group gv = [] then Version gv else Group gv @ ''/'' @ Version gv)"

definition ClusterLabelName :: string where
  "ClusterLabelName = ''cluster.x-k8s.io/cluster-name''"

subsection \<open>Go's map primitives\<close>

text \<open>Reading a \<^verbatim>\<open>nil\<close> map finds nothing, \<^verbatim>\<open>range\<close> over it visits nothing and
  \<^verbatim>\<open>delete\<close> on it does nothing; \<^verbatim>\<open>len\<close> counts the entries.\<close>

definition goLookup :: "gomap option \<Rightarrow> string \<Rightarrow> string option" where
  "goLookup mo k = (case mo of None \<Rightarrow> None | Some m \<Rightarrow> fmlookup m k)"

definition goDelete :: "gomap option \<Rightarrow> string \<Rightarrow> gomap option" where
  "goDelete mo k = (case mo of None \<Rightarrow> None | Some m \<Rightarrow> Some (fmdrop k m))"

definition goRange :: "'w deps \<Rightarrow> gomap option \<Rightarrow> (string \<times> string) list" where
  "goRange d mo = (case mo of None \<Rightarrow> [] | Some m \<Rightarrow> rangeOrder d m)"

definition len :: "gomap \<Rightarrow> nat" where
  "len m = fcard (fmdom m)"

text \<open>\<^verbatim>\<open>if m == nil { m = make(map[string]string) }\<close>\<close>

definition makeIfNil :: "gomap option \<Rightarrow> gomap" where
  "makeIfNil mo = (case mo of None \<Rightarrow> fmempty | Some m \<Rightarrow> m)"

subsection \<open>strconv.Itoa\<close>

definition digit :: "nat \<Rightarrow> char" where
  "digit d = ''0123456789'' ! d"

fun FormatUint :: "nat \<Rightarrow> string" where
  "FormatUint n = (if n < 10 then [digit n] else FormatUint (n div 10) @ [digit (n mod 10)])"

declare FormatUint.simps [simp del]

definition Itoa :: "int \<Rightarrow> string" where
  "Itoa i = (if i < 0 then CHR ''-'' # FormatUint (nat (- i)) else FormatUint (nat i))"

subsection \<open>updateStatusTimestamp, RecreateStatus, RecreateStatusConditionally\<close>

definition mapStatus ::
  "(Metal3DataTemplateStatus \<Rightarrow> Metal3DataTemplateStatus) \<Rightarrow> 'w DataTemplateManager \<Rightarrow> 'w DataTemplateManager" where
  "mapStatus f m = m\<lparr>DataTemplate := (DataTemplate m)\<lparr>Status := f (Status (DataTemplate m))\<rparr>\<rparr>"

definition updateStatusTimestamp :: "'w DataTemplateManager \<Rightarrow> 'w DataTemplateManager" where
  "updateStatusTimestamp m =
     (mapStatus (\<lambda>s. s\<lparr>LastUpdated := Some (Suc (clock m))\<rparr>) m)\<lparr>clock := Suc (clock m)\<rparr>"

text \<open>
  Lines 117 to 123: the object points to the template of this name. Lines 125 to 130: the
  machine name of the object, the empty string when it names no machine.
\<close>

definition pointsTo :: "string \<Rightarrow> Metal3Data \<Rightarrow> bool" where
  "pointsTo name dataObject =
     (case specDataTemplate (dataSpec dataObject) of
        None \<Rightarrow> False
      | Some ref \<Rightarrow> refName ref = name)"

definition machineNameOf :: "Metal3Data \<Rightarrow> string" where
  "machineNameOf dataObject =
     (case specMetal3Machine (dataSpec dataObject) of
        None \<Rightarrow> []
      | Some ref \<Rightarrow> refName ref)"

text \<open>
  The body of the loop over the listed objects (lines 115 to 133), on the two maps, which
  lines 99 and 100 have just made: an object that does not point to the template is
  discarded; the others set one entry in each map.
\<close>

definition RecreateStatus_item :: "string \<Rightarrow> Metal3Data \<Rightarrow> gomap \<times> gomap \<Rightarrow> gomap \<times> gomap" where
  "RecreateStatus_item name dataObject maps =
     (if \<not> pointsTo name dataObject then maps
      else (fmupd (Itoa (specIndex (dataSpec dataObject))) (machineNameOf dataObject) (fst maps),
            fmupd (machineNameOf dataObject) (dataName dataObject) (snd maps)))"

fun RecreateStatus_loop :: "string \<Rightarrow> Metal3Data list \<Rightarrow> gomap \<times> gomap \<Rightarrow> gomap \<times> gomap" where
  "RecreateStatus_loop name [] maps = maps"
| "RecreateStatus_loop name (dataObject # items) maps =
     RecreateStatus_loop name items (RecreateStatus_item name dataObject maps)"

definition RecreateStatus ::
  "'w deps \<Rightarrow> 'w DataTemplateManager \<Rightarrow> error option \<times> 'w DataTemplateManager" where
  "RecreateStatus d m =
     (let m1 = mapStatus (\<lambda>s. s\<lparr>Indexes := Some fmempty, DataNames := Some fmempty\<rparr>) m
      in case clientList d (client m1) (tplNamespace (DataTemplate m1)) of
           (Inl err, w) \<Rightarrow> (Some err, m1\<lparr>client := w\<rparr>)
         | (Inr dataObjects, w) \<Rightarrow>
             let maps = RecreateStatus_loop (tplName (DataTemplate m1)) dataObjects (fmempty, fmempty);
                 m2 = mapStatus (\<lambda>s. s\<lparr>Indexes := Some (fst maps), DataNames := Some (snd maps)\<rparr>)
                        (m1\<lparr>client := w\<rparr>)
             in (None, updateStatusTimestamp m2))"

text \<open>\<^verbatim>\<open>LastUpdated.IsZero()\<close>: a \<^verbatim>\<open>nil\<close> time, or the zero instant.\<close>

definition IsZero :: "nat option \<Rightarrow> bool" where
  "IsZero t = (case t of None \<Rightarrow> True | Some v \<Rightarrow> v = 0)"

definition RecreateStatusConditionally ::
  "'w deps \<Rightarrow> 'w DataTemplateManager \<Rightarrow> error option \<times> 'w DataTemplateManager" where
  "RecreateStatusConditionally d m =
     (if IsZero (LastUpdated (Status (DataTemplate m))) then RecreateStatus d m else (None, m))"

subsection \<open>CreateDatas\<close>

text \<open>
  Lines 194 to 204: the index starts as the length of the map; the loop looks for the
  first \<open>index\<close> below the length whose key is missing, and stops there.
\<close>

function allocLoop :: "gomap \<Rightarrow> int \<Rightarrow> int \<Rightarrow> int" where
  "allocLoop idx index machineIndexInt =
     (if index < int (len idx) then
        (if fmlookup idx (Itoa index) = None then
           (if machineIndexInt = int (len idx) then index
            else allocLoop idx (index + 1) machineIndexInt)
         else allocLoop idx (index + 1) machineIndexInt)
      else machineIndexInt)"
  by pat_completeness auto
termination
  by (relation "measure (\<lambda>(idx, index, mi). nat (int (len idx) - index))") auto

declare allocLoop.simps [simp del]

definition allocateIndex :: "gomap \<Rightarrow> int" where
  "allocateIndex idx = allocLoop idx 0 (int (len idx))"

text \<open>Lines 216 to 248: the Metal3Data object, owned by the machine and by the template.\<close>

definition newMetal3Data ::
  "Metal3DataTemplate \<Rightarrow> OwnerReference \<Rightarrow> string \<Rightarrow> int \<Rightarrow> string \<Rightarrow> Metal3Data" where
  "newMetal3Data t curOwnerRef clusterName machineIndexInt name =
     \<lparr>dataKind = ''Metal3Data'',
      dataAPIVersion = GroupVersion_String capm3_GroupVersion,
      dataName = name,
      dataNamespace = tplNamespace t,
      dataLabels = fmupd ClusterLabelName clusterName fmempty,
      dataOwnerReferences =
        [curOwnerRef,
         \<lparr>orAPIVersion = tplAPIVersion t, orKind = tplKind t, orName = tplName t,
          orUID = tplUID t, orController = Some True\<rparr>],
      dataSpec =
        \<lparr>specIndex = machineIndexInt,
         specDataTemplate = Some \<lparr>refName = tplName t, refNamespace = tplNamespace t\<rparr>,
         specMetal3Machine = Some \<lparr>refName = orName curOwnerRef, refNamespace = tplNamespace t\<rparr>\<rparr>\<rparr>"

text \<open>
  Lines 186 to 191 and 206 to 210: the maps are made if \<^verbatim>\<open>nil\<close>, and the two entries
  are recorded in the status.
\<close>

definition recordIndex ::
  "string \<Rightarrow> int \<Rightarrow> 'w DataTemplateManager \<Rightarrow> 'w DataTemplateManager" where
  "recordIndex owner machineIndexInt m =
     (let machineIndex = Itoa machineIndexInt;
          name = tplName (DataTemplate m) @ ''-'' @ machineIndex
      in mapStatus (\<lambda>s. s\<lparr>Indexes := Some (fmupd machineIndex owner (makeIfNil (Indexes s))),
                            DataNames := Some (fmupd owner name (makeIfNil (DataNames s)))\<rparr>) m)"

text \<open>
  Lines 186 to 263, for an owner whose machine was found and a template with the cluster
  label: the index is chosen and recorded, the object is created; on a conflict the status
  is recreated and \<^verbatim>\<open>requeueNeeded\<close> is set. The result is the error the body returns
  with, if it returns, the manager, and \<^verbatim>\<open>requeueNeeded\<close>.
\<close>

definition CreateDatas_create ::
  "'w deps \<Rightarrow> OwnerReference \<Rightarrow> string \<Rightarrow> 'w DataTemplateManager \<times> bool
     \<Rightarrow> error option \<times> 'w DataTemplateManager \<times> bool" where
  "CreateDatas_create d curOwnerRef clusterName mr =
     (let m = fst mr; requeueNeeded = snd mr;
          machineIndexInt = allocateIndex (makeIfNil (Indexes (Status (DataTemplate m))));
          name = tplName (DataTemplate m) @ ''-'' @ Itoa machineIndexInt;
          m2 = recordIndex (orName curOwnerRef) machineIndexInt m;
          dataObject = newMetal3Data (DataTemplate m2) curOwnerRef clusterName machineIndexInt name
      in case createObject d (client m2) dataObject of
           (None, w2) \<Rightarrow> (None, m2\<lparr>client := w2\<rparr>, requeueNeeded)
         | (Some err, w2) \<Rightarrow>
             if HasRequeueAfterError err then
               (case RecreateStatus d (m2\<lparr>client := w2\<rparr>) of
                  (Some err2, m3) \<Rightarrow> (Some err2, m3, requeueNeeded)
                | (None, m3) \<Rightarrow> (None, m3, True))
             else (Some err, m2\<lparr>client := w2\<rparr>, requeueNeeded))"

text \<open>The body of the loop over the owner references (lines 150 to 263).\<close>

definition CreateDatas_body ::
  "'w deps \<Rightarrow> OwnerReference \<Rightarrow> 'w DataTemplateManager \<times> bool
     \<Rightarrow> error option \<times> 'w DataTemplateManager \<times> bool" where
  "CreateDatas_body d curOwnerRef mr =
     (let m = fst mr; requeueNeeded = snd mr in
      case ParseGroupVersion d (orAPIVersion curOwnerRef) of
        Inl err \<Rightarrow> (Some err, m, requeueNeeded)
      | Inr curOwnerRefGV \<Rightarrow>
          if orKind curOwnerRef \<noteq> ''Metal3Machine'' \<or>
             Group curOwnerRefGV \<noteq> Group capm3_GroupVersion
          then (None, m, requeueNeeded)
          else if goLookup (DataNames (Status (DataTemplate m))) (orName curOwnerRef) \<noteq> None
          then (None, m, requeueNeeded)
          else
            (case getM3Machine d (client m) (orName curOwnerRef)
                   (tplNamespace (DataTemplate m)) (DataTemplate m) False of
              (Inl err, w1) \<Rightarrow> (Some err, m\<lparr>client := w1\<rparr>, requeueNeeded)
            | (Inr None, w1) \<Rightarrow> (None, m\<lparr>client := w1\<rparr>, requeueNeeded)
            | (Inr (Some m3Machine), w1) \<Rightarrow>
                (case fmlookup (tplLabels (DataTemplate m)) ClusterLabelName of
                   None \<Rightarrow>
                     (Some (Other ''No cluster name found on Metal3DataTemplate object''),
                      m\<lparr>client := w1\<rparr>, requeueNeeded)
                 | Some clusterName \<Rightarrow>
                     CreateDatas_create d curOwnerRef clusterName
                       (m\<lparr>client := w1\<rparr>, requeueNeeded))))"

fun CreateDatas_loop ::
  "'w deps \<Rightarrow> OwnerReference list \<Rightarrow> 'w DataTemplateManager \<times> bool
     \<Rightarrow> error option \<times> 'w DataTemplateManager \<times> bool" where
  "CreateDatas_loop d [] mr = (None, mr)"
| "CreateDatas_loop d (curOwnerRef # refs) mr =
     (case CreateDatas_body d curOwnerRef mr of
        (Some err, mr') \<Rightarrow> (Some err, mr')
      | (None, mr') \<Rightarrow> CreateDatas_loop d refs mr')"

definition CreateDatas ::
  "'w deps \<Rightarrow> 'w DataTemplateManager \<Rightarrow> error option \<times> 'w DataTemplateManager" where
  "CreateDatas d m =
     (case CreateDatas_loop d (tplOwnerReferences (DataTemplate m)) (m, False) of
        (Some err, m', requeueNeeded) \<Rightarrow> (Some err, m')
      | (None, m', requeueNeeded) \<Rightarrow>
          (if requeueNeeded then Some (RequeueAfterError 0) else None, updateStatusTimestamp m'))"

subsection \<open>DeleteDatas\<close>

text \<open>Lines 277 to 296: is the machine among the Metal3Machine owner references?\<close>

fun DeleteDatas_present :: "'w deps \<Rightarrow> string \<Rightarrow> OwnerReference list \<Rightarrow> error + bool" where
  "DeleteDatas_present d name [] = Inr False"
| "DeleteDatas_present d name (curOwnerRef # refs) =
     (case ParseGroupVersion d (orAPIVersion curOwnerRef) of
        Inl err \<Rightarrow> Inl err
      | Inr curOwnerRefGV \<Rightarrow>
          if orKind curOwnerRef \<noteq> ''Metal3Machine'' \<or>
             Group curOwnerRefGV \<noteq> Group capm3_GroupVersion
          then DeleteDatas_present d name refs
          else if name = orName curOwnerRef then Inr True
          else DeleteDatas_present d name refs)"

text \<open>Lines 322 to 327: the last index visited whose value is the machine name, or the
  empty string.\<close>

fun deletionIndexLoop :: "string \<Rightarrow> (string \<times> string) list \<Rightarrow> string \<Rightarrow> string" where
  "deletionIndexLoop name [] deletionIndex = deletionIndex"
| "deletionIndexLoop name ((index, owner) # rest) deletionIndex =
     deletionIndexLoop name rest (if owner = name then index else deletionIndex)"

text \<open>Lines 322 to 329.\<close>

definition removeEntries :: "'w deps \<Rightarrow> string \<Rightarrow> 'w DataTemplateManager \<Rightarrow> 'w DataTemplateManager" where
  "removeEntries d name m =
     (let deletionIndex =
            deletionIndexLoop name (goRange d (Indexes (Status (DataTemplate m)))) []
      in mapStatus (\<lambda>s. s\<lparr>Indexes := goDelete (Indexes s) deletionIndex,
                            DataNames := goDelete (DataNames s) name\<rparr>) m)"

text \<open>The body of the loop over the entries of \<^verbatim>\<open>DataNames\<close> (lines 277 to 330).\<close>

definition DeleteDatas_body ::
  "'w deps \<Rightarrow> string \<times> string \<Rightarrow> 'w DataTemplateManager \<Rightarrow> error option \<times> 'w DataTemplateManager" where
  "DeleteDatas_body d entry m =
     (let name = fst entry; dName = snd entry in
      case DeleteDatas_present d name (tplOwnerReferences (DataTemplate m)) of
        Inl err \<Rightarrow> (Some err, m)
      | Inr True \<Rightarrow> (None, m)
      | Inr False \<Rightarrow>
          (case clientGet d (client m) (dName, tplNamespace (DataTemplate m)) of
             (Inl err, w1) \<Rightarrow>
               if \<not> IsNotFound err then (Some err, m\<lparr>client := w1\<rparr>)
               else (None, removeEntries d name (m\<lparr>client := w1\<rparr>))
           | (Inr tmpM3Data, w1) \<Rightarrow>
               (case clientDelete d w1 tmpM3Data of
                  (None, w2) \<Rightarrow> (None, removeEntries d name (m\<lparr>client := w2\<rparr>))
                | (Some err, w2) \<Rightarrow>
                    if \<not> IsNotFound err then (Some err, m\<lparr>client := w2\<rparr>)
                    else (None, removeEntries d name (m\<lparr>client := w2\<rparr>)))))"

fun DeleteDatas_loop ::
  "'w deps \<Rightarrow> (string \<times> string) list \<Rightarrow> 'w DataTemplateManager
     \<Rightarrow> error option \<times> 'w DataTemplateManager" where
  "DeleteDatas_loop d [] m = (None, m)"
| "DeleteDatas_loop d (entry # entries) m =
     (case DeleteDatas_body d entry m of
        (Some err, m') \<Rightarrow> (Some err, m')
      | (None, m') \<Rightarrow> DeleteDatas_loop d entries m')"

text \<open>
  The loop deletes from \<^verbatim>\<open>DataNames\<close> only the entry it is visiting, so it visits the
  entries the map has when the loop starts.
\<close>

definition DeleteDatas ::
  "'w deps \<Rightarrow> 'w DataTemplateManager \<Rightarrow> error option \<times> 'w DataTemplateManager" where
  "DeleteDatas d m =
     (case DeleteDatas_loop d (goRange d (DataNames (Status (DataTemplate m)))) m of
        (Some err, m') \<Rightarrow> (Some err, m')
      | (None, m') \<Rightarrow> (None, updateStatusTimestamp m'))"

subsection \<open>DeleteReady\<close>

fun DeleteReady_loop :: "'w deps \<Rightarrow> OwnerReference list \<Rightarrow> bool \<times> error option" where
  "DeleteReady_loop d [] = (True, None)"
| "DeleteReady_loop d (curOwnerRef # refs) =
     (case ParseGroupVersion d (orAPIVersion curOwnerRef) of
        Inl err \<Rightarrow> (False, Some err)
      | Inr curOwnerRefGV \<Rightarrow>
          if orKind curOwnerRef = ''Metal3Machine'' \<or>
             Group curOwnerRefGV = Group capm3_GroupVersion
          then (False, None)
          else DeleteReady_loop d refs)"

definition DeleteReady :: "'w deps \<Rightarrow> 'w DataTemplateManager \<Rightarrow> bool \<times> error option" where
  "DeleteReady d m = DeleteReady_loop d (tplOwnerReferences (DataTemplate m))"

subsection \<open>An in-memory store\<close>

text \<open>
  Modelled from the spec: the collaborators of section 6, which this file calls and does
  not define, over a store that holds the derived objects and the machines.
  \<^verbatim>\<open>listDerived(namespace)\<close> gives the objects of the namespace; \<^verbatim>\<open>getDerived\<close> and
  \<^verbatim>\<open>deleteDerived\<close> answer "not found" for an object that is not there;
  \<^verbatim>\<open>createDerived\<close> answers with the conflict, which \<^verbatim>\<open>createObject\<close> turns into a
  \<^verbatim>\<open>RequeueAfterError\<close>, when an object with this identity already exists;
  \<^verbatim>\<open>resolveMember\<close> finds the machine by name and namespace, and \<^verbatim>\<open>getM3Machine\<close>
  gives no machine when it is not found or does not point to the template. The API
  group of an owner reference is the part of its \<^verbatim>\<open>apiVersion\<close> before the slash. The
  store visits a map in the order of its keys.
\<close>

record World =
  datas :: "Metal3Data list"
  machines :: "Metal3Machine list"

definition sameKey :: "string \<times> string \<Rightarrow> Metal3Data \<Rightarrow> bool" where
  "sameKey key obj \<longleftrightarrow> dataName obj = fst key \<and> dataNamespace obj = snd key"

definition memParseGroupVersion :: "string \<Rightarrow> error + GroupVersion" where
  "memParseGroupVersion gv =
     (if gv = [] \<or> gv = ''/'' then Inr \<lparr>Group = [], Version = []\<rparr>
      else if count_list gv (CHR ''/'') = 0 then Inr \<lparr>Group = [], Version = gv\<rparr>
      else if count_list gv (CHR ''/'') = 1 then
        Inr \<lparr>Group = takeWhile (\<lambda>c. c \<noteq> CHR ''/'') gv,
             Version = tl (dropWhile (\<lambda>c. c \<noteq> CHR ''/'') gv)\<rparr>
      else Inl (Other (''unexpected GroupVersion string: '' @ gv)))"

definition memList :: "World \<Rightarrow> string \<Rightarrow> (error + Metal3Data list) \<times> World" where
  "memList w ns = (Inr (filter (\<lambda>obj. dataNamespace obj = ns) (datas w)), w)"

definition memGet :: "World \<Rightarrow> string \<times> string \<Rightarrow> (error + Metal3Data) \<times> World" where
  "memGet w key =
     (case find (sameKey key) (datas w) of None \<Rightarrow> (Inl NotFound, w) | Some obj \<Rightarrow> (Inr obj, w))"

definition memDelete :: "World \<Rightarrow> Metal3Data \<Rightarrow> error option \<times> World" where
  "memDelete w obj =
     (case find (sameKey (dataName obj, dataNamespace obj)) (datas w) of
        None \<Rightarrow> (Some NotFound, w)
      | Some _ \<Rightarrow>
          (None, w\<lparr>datas := filter (\<lambda>x. \<not> sameKey (dataName obj, dataNamespace obj) x) (datas w)\<rparr>))"

definition memCreateObject :: "World \<Rightarrow> Metal3Data \<Rightarrow> error option \<times> World" where
  "memCreateObject w obj =
     (case find (sameKey (dataName obj, dataNamespace obj)) (datas w) of
        None \<Rightarrow> (None, w\<lparr>datas := datas w @ [obj]\<rparr>)
      | Some _ \<Rightarrow> (Some (RequeueAfterError 0), w))"

definition memGetM3Machine ::
  "World \<Rightarrow> string \<Rightarrow> string \<Rightarrow> Metal3DataTemplate \<Rightarrow> bool
     \<Rightarrow> (error + Metal3Machine option) \<times> World" where
  "memGetM3Machine w name ns t requeueifNotFound =
     (case find (\<lambda>x. machineName x = name \<and> machineNamespace x = ns) (machines w) of
        None \<Rightarrow> (if requeueifNotFound then Inl (RequeueAfterError 0) else Inr None, w)
      | Some x \<Rightarrow>
          (case machineDataTemplate x of
             None \<Rightarrow> (Inr None, w)
           | Some ref \<Rightarrow>
               if refName ref \<noteq> tplName t then (Inr None, w) else (Inr (Some x), w)))"

definition memDeps :: "World deps" where
  "memDeps =
     \<lparr>ParseGroupVersion = memParseGroupVersion,
      clientList = memList,
      clientGet = memGet,
      clientDelete = memDelete,
      getM3Machine = memGetM3Machine,
      createObject = memCreateObject,
      rangeOrder = sorted_list_of_fmap\<rparr>"

subsection \<open>A template, its machines and its objects\<close>

text \<open>
  The objects of the examples: the machine owner reference of a name, an owner reference
  of another kind in the same API group, the template \<^verbatim>\<open>tpl\<close> of the namespace
  \<^verbatim>\<open>ns\<close> with the cluster label, a machine that points to it, a derived object, and a
  manager of the template over a store with the machines \<^verbatim>\<open>m1\<close> and \<^verbatim>\<open>m2\<close>.
\<close>

definition exMachineRef :: "string \<Rightarrow> OwnerReference" where
  "exMachineRef name =
     \<lparr>orAPIVersion = ''infrastructure.cluster.x-k8s.io/v1alpha4'', orKind = ''Metal3Machine'',
      orName = name, orUID = ''uid-'' @ name, orController = None\<rparr>"

definition exClusterRef :: OwnerReference where
  "exClusterRef =
     \<lparr>orAPIVersion = ''infrastructure.cluster.x-k8s.io/v1alpha4'', orKind = ''Metal3Cluster'',
      orName = ''c1'', orUID = ''uid-c1'', orController = None\<rparr>"

definition exStatus :: "(string \<times> string) list \<Rightarrow> (string \<times> string) list \<Rightarrow> Metal3DataTemplateStatus" where
  "exStatus idx dn =
     \<lparr>Indexes = Some (fmap_of_list idx), DataNames = Some (fmap_of_list dn), LastUpdated = Some 1\<rparr>"

definition exNilStatus :: Metal3DataTemplateStatus where
  "exNilStatus = \<lparr>Indexes = None, DataNames = None, LastUpdated = None\<rparr>"

definition exTemplate :: "OwnerReference list \<Rightarrow> Metal3DataTemplateStatus \<Rightarrow> Metal3DataTemplate" where
  "exTemplate refs st =
     \<lparr>tplAPIVersion = ''infrastructure.cluster.x-k8s.io/v1alpha4'', tplKind = ''Metal3DataTemplate'',
      tplName = ''tpl'', tplNamespace = ''ns'', tplUID = ''uid-tpl'',
      tplLabels = fmap_of_list [(ClusterLabelName, ''cluster'')],
      tplOwnerReferences = refs, Status = st\<rparr>"

definition exMachine :: "string \<Rightarrow> Metal3Machine" where
  "exMachine name =
     \<lparr>machineName = name, machineNamespace = ''ns'',
      machineDataTemplate = Some \<lparr>refName = ''tpl'', refNamespace = ''ns''\<rparr>\<rparr>"

definition exData :: "string \<Rightarrow> int \<Rightarrow> string option \<Rightarrow> string \<Rightarrow> Metal3Data" where
  "exData name i owner template =
     \<lparr>dataKind = ''Metal3Data'', dataAPIVersion = ''infrastructure.cluster.x-k8s.io/v1alpha4'',
      dataName = name, dataNamespace = ''ns'', dataLabels = fmempty, dataOwnerReferences = [],
      dataSpec =
        \<lparr>specIndex = i,
         specDataTemplate = Some \<lparr>refName = template, refNamespace = ''ns''\<rparr>,
         specMetal3Machine =
           (case owner of None \<Rightarrow> None | Some n \<Rightarrow> Some \<lparr>refName = n, refNamespace = ''ns''\<rparr>)\<rparr>\<rparr>"

definition exManager ::
  "OwnerReference list \<Rightarrow> Metal3DataTemplateStatus \<Rightarrow> Metal3Data list \<Rightarrow> World DataTemplateManager" where
  "exManager refs st ds =
     \<lparr>client = \<lparr>datas = ds, machines = [exMachine ''m1'', exMachine ''m2'']\<rparr>,
      DataTemplate = exTemplate refs st, clock = 0\<rparr>"

text \<open>Four listed objects: one of the machine \<^verbatim>\<open>m1\<close>, two without a machine, and one of
  another template.\<close>

definition exObjects :: "Metal3Data list" where
  "exObjects =
     [exData ''tpl-0'' 0 (Some ''m1'') ''tpl'', exData ''tpl-1'' 1 None ''tpl'',
      exData ''other-2'' 2 (Some ''m9'') ''other'', exData ''tpl-3'' 3 None ''tpl'']"

definition exListed :: "World DataTemplateManager" where
  "exListed = exManager [] exNilStatus exObjects"

subsection \<open>The consistency of the two status maps\<close>










text \<open>
  A client whose creations fail with an error that is no conflict. A manager of a template
  owned by \<^verbatim>\<open>m1\<close> and \<^verbatim>\<open>m2\<close>, with a \<^verbatim>\<open>nil\<close> status: over an empty store, and over
  a store that has the object \<^verbatim>\<open>tpl-0\<close> of another machine. A manager of a template
  whose machines have their entries and their objects.
\<close>

definition exFailingDeps :: "World deps" where
  "exFailingDeps = memDeps\<lparr>createObject := (\<lambda>w obj. (Some (Other ''internal error''), w))\<rparr>"

definition exFresh :: "World DataTemplateManager" where
  "exFresh = exManager [exMachineRef ''m1'', exMachineRef ''m2''] exNilStatus []"

definition exTaken :: "World DataTemplateManager" where
  "exTaken = exManager [exMachineRef ''m1'', exMachineRef ''m2''] exNilStatus
               [exData ''tpl-0'' 0 (Some ''m9'') ''tpl'']"


definition exDone :: "World DataTemplateManager" where
  "exDone = exManager [exMachineRef ''m1'', exClusterRef, exMachineRef ''m2'']
              (exStatus [(''0'', ''m1''), (''1'', ''m2'')] [(''m1'', ''tpl-0''), (''m2'', ''tpl-1'')])
              [exData ''tpl-0'' 0 (Some ''m1'') ''tpl'', exData ''tpl-1'' 1 (Some ''m2'') ''tpl'']"

text \<open>
  The creation pass on \<open>m0\<close> comes to the owner reference \<open>ref\<close> with the manager
  \<open>m\<close> and the flag \<open>rq\<close>, finds it to be a machine of the API group without an entry,
  finds its machine (the client is left in \<open>w1\<close>) and the cluster label \<open>cn\<close>, chooses
  the index \<open>i\<close>, and calls \<^verbatim>\<open>createObject\<close>, which answers \<open>ro\<close> and leaves the client
  in \<open>w2\<close>.
\<close>

definition createAttempt ::
  "'w deps \<Rightarrow> 'w DataTemplateManager \<Rightarrow> OwnerReference list \<Rightarrow> OwnerReference \<Rightarrow>
   OwnerReference list \<Rightarrow> 'w DataTemplateManager \<Rightarrow> bool \<Rightarrow> string \<Rightarrow> int \<Rightarrow> 'w \<Rightarrow>
   error option \<Rightarrow> 'w \<Rightarrow> bool" where
  "createAttempt d m0 pre ref post m rq cn i w1 ro w2 \<longleftrightarrow>
     tplOwnerReferences (DataTemplate m0) = pre @ ref # post \<and>
     CreateDatas_loop d pre (m0, False) = (None, m, rq) \<and>
     (case ParseGroupVersion d (orAPIVersion ref) of
        Inl err \<Rightarrow> False
      | Inr gv \<Rightarrow> Group gv = Group capm3_GroupVersion) \<and>
     orKind ref = ''Metal3Machine'' \<and>
     goLookup (DataNames (Status (DataTemplate m))) (orName ref) = None \<and>
     (case getM3Machine d (client m) (orName ref) (tplNamespace (DataTemplate m))
             (DataTemplate m) False of
        (Inr (Some mach), w) \<Rightarrow> w = w1
      | _ \<Rightarrow> False) \<and>
     fmlookup (tplLabels (DataTemplate m)) ClusterLabelName = Some cn \<and>
     i = allocateIndex (makeIfNil (Indexes (Status (DataTemplate m)))) \<and>
     createObject d w1
       (newMetal3Data (DataTemplate m) ref cn i (tplName (DataTemplate m) @ ''-'' @ Itoa i)) =
     (ro, w2)"

text \<open>The number of indexes under which \<^verbatim>\<open>Indexes\<close> has the owner \<open>n\<close>.\<close>

definition indexCount :: "gomap option \<Rightarrow> string \<Rightarrow> nat" where
  "indexCount mo n = fcard (ffilter (\<lambda>k. goLookup mo k = Some n) (fmdom (makeIfNil mo)))"

text \<open>
  A manager whose template is owned by \<^verbatim>\<open>m2\<close> only and has the entries of three
  machines, over a store that has lost the object of \<^verbatim>\<open>m1\<close>. The manager that the creation
  pass leaves from \<open>exFresh\<close>, and the same with \<^verbatim>\<open>m1\<close> removed from the owner
  references.
\<close>

definition exStale :: "World DataTemplateManager" where
  "exStale = exManager [exMachineRef ''m2'']
     (exStatus [(''0'', ''m1''), (''1'', ''m2''), (''2'', ''m3'')]
               [(''m1'', ''tpl-0''), (''m2'', ''tpl-1''), (''m3'', ''tpl-2'')])
     [exData ''tpl-1'' 1 (Some ''m2'') ''tpl'', exData ''tpl-2'' 2 (Some ''m3'') ''tpl'']"

definition exCreated :: "World DataTemplateManager" where
  "exCreated = snd (CreateDatas memDeps exFresh)"

definition exReleased :: "World DataTemplateManager" where
  "exReleased = exCreated\<lparr>DataTemplate :=
     (DataTemplate exCreated)\<lparr>tplOwnerReferences := [exMachineRef ''m2'']\<rparr>\<rparr>"




definition allProvisioned :: "'w deps \<Rightarrow> 'w DataTemplateManager \<Rightarrow> bool" where
  "allProvisioned d m \<longleftrightarrow>
     list_all (\<lambda>ref. case ParseGroupVersion d (orAPIVersion ref) of
                        Inl err \<Rightarrow> True
                      | Inr gv \<Rightarrow>
                          orKind ref = ''Metal3Machine'' \<and>
                          Group gv = Group capm3_GroupVersion \<longrightarrow>
                          goLookup (DataNames (Status (DataTemplate m))) (orName ref) \<noteq> None)
       (tplOwnerReferences (DataTemplate m))"


section \<open>Properties\<close>

subsection \<open>The decimal representation is injective\<close>

lemma digit_inj: "d < 10 \<Longrightarrow> e < 10 \<Longrightarrow> digit d = digit e \<Longrightarrow> d = e"
  unfolding digit_def
  by (rule iffD1[OF nth_eq_iff_index_eq]) simp_all

lemma digit_in: "d < 10 \<Longrightarrow> digit d \<in> set ''0123456789''"
  unfolding digit_def by (rule nth_mem) simp

lemma FormatUint_nonempty: "FormatUint n \<noteq> []"
  by (subst FormatUint.simps) simp

lemma FormatUint_digits: "set (FormatUint n) \<subseteq> set ''0123456789''"
proof (induction n rule: FormatUint.induct)
  case (1 n)
  show ?case
  proof (cases "n < 10")
    case True
    then show ?thesis using digit_in[of n] by (subst FormatUint.simps) simp
  next
    case False
    have "n mod 10 < 10" by simp
    then have "digit (n mod 10) \<in> set ''0123456789''" by (rule digit_in)
    with False 1 show ?thesis by (subst FormatUint.simps) simp
  qed
qed

lemma FormatUint_inj: "FormatUint a = FormatUint b \<Longrightarrow> a = b"
proof (induction a arbitrary: b rule: FormatUint.induct)
  case (1 a)
  show ?case
  proof (cases "a < 10")
    case a: True
    show ?thesis
    proof (cases "b < 10")
      case True
      with a 1(2) have "digit a = digit b"
        by (simp add: FormatUint.simps[of a] FormatUint.simps[of b])
      with a True show ?thesis by (rule digit_inj)
    next
      case False
      with a 1(2) have "FormatUint (b div 10) = []"
        by (simp add: FormatUint.simps[of a] FormatUint.simps[of b])
      then show ?thesis by (simp add: FormatUint_nonempty)
    qed
  next
    case a: False
    show ?thesis
    proof (cases "b < 10")
      case True
      with a 1(2) have "FormatUint (a div 10) = []"
        by (simp add: FormatUint.simps[of a] FormatUint.simps[of b])
      then show ?thesis by (simp add: FormatUint_nonempty)
    next
      case False
      with a 1(2) have e: "FormatUint (a div 10) = FormatUint (b div 10)"
        and dg: "digit (a mod 10) = digit (b mod 10)"
        by (simp_all add: FormatUint.simps[of a] FormatUint.simps[of b])
      from 1(1)[OF a e] have "a div 10 = b div 10" .
      moreover have "a mod 10 = b mod 10" by (rule digit_inj[OF _ _ dg]) simp_all
      ultimately show ?thesis by (metis div_mult_mod_eq)
    qed
  qed
qed

lemma FormatUint_no_minus: "CHR ''-'' # xs \<noteq> FormatUint n"
proof
  assume "CHR ''-'' # xs = FormatUint n"
  then have "CHR ''-'' \<in> set (FormatUint n)" by (metis list.set_intros(1))
  with FormatUint_digits[of n] show False by auto
qed

lemma Itoa_inj: "Itoa a = Itoa b \<Longrightarrow> a = b"
  unfolding Itoa_def
  by (auto split: if_splits dest: FormatUint_inj
        simp: FormatUint_no_minus FormatUint_no_minus[symmetric])

lemma Itoa_eq_iff [simp]: "Itoa a = Itoa b \<longleftrightarrow> a = b"
  using Itoa_inj by blast

subsection \<open>The index allocation\<close>

lemma allocLoop_spec:
  "0 \<le> i \<Longrightarrow> i \<le> int (len idx) \<Longrightarrow>
   \<forall>j. 0 \<le> j \<and> j < i \<longrightarrow> fmlookup idx (Itoa j) \<noteq> None \<Longrightarrow>
   0 \<le> allocLoop idx i (int (len idx)) \<and>
   allocLoop idx i (int (len idx)) \<le> int (len idx) \<and>
   (\<forall>j. 0 \<le> j \<and> j < allocLoop idx i (int (len idx)) \<longrightarrow> fmlookup idx (Itoa j) \<noteq> None) \<and>
   (allocLoop idx i (int (len idx)) < int (len idx) \<longrightarrow>
      fmlookup idx (Itoa (allocLoop idx i (int (len idx)))) = None)"
proof (induction idx i "int (len idx)" rule: allocLoop.induct)
  case (1 idx index)
  show ?case
  proof (cases "index < int (len idx)")
    case False
    then have eq: "allocLoop idx index (int (len idx)) = int (len idx)"
      by (subst allocLoop.simps) simp
    from False 1(3,4,5) show ?thesis unfolding eq by auto
  next
    case lt: True
    show ?thesis
    proof (cases "fmlookup idx (Itoa index) = None")
      case True
      with lt have eq: "allocLoop idx index (int (len idx)) = index"
        by (subst allocLoop.simps) simp
      from True lt 1(3,4,5) show ?thesis unfolding eq by auto
    next
      case False
      have a: "0 \<le> index + 1" using 1(3) by simp
      have a': "index + 1 \<le> int (len idx)" using lt by simp
      have b: "\<forall>j. 0 \<le> j \<and> j < index + 1 \<longrightarrow> fmlookup idx (Itoa j) \<noteq> None"
      proof (intro allI impI)
        fix j assume j: "0 \<le> j \<and> j < index + 1"
        then have "j < index \<or> j = index" by auto
        then show "fmlookup idx (Itoa j) \<noteq> None"
          using False 1(5) j by auto
      qed
      have eq: "allocLoop idx index (int (len idx)) = allocLoop idx (index + 1) (int (len idx))"
        using lt False by (subst allocLoop.simps) auto
      from 1(2)[OF lt False a a' b] show ?thesis unfolding eq .
    qed
  qed
qed

text \<open>A map with \<open>n\<close> entries that has the keys of \<open>0\<close> to \<open>n - 1\<close> has no other key.\<close>

lemma full_range_next_free:
  assumes "\<forall>j. 0 \<le> j \<and> j < int (len idx) \<longrightarrow> fmlookup idx (Itoa j) \<noteq> None"
  shows "fmlookup idx (Itoa (int (len idx))) = None"
proof (rule ccontr)
  assume "fmlookup idx (Itoa (int (len idx))) \<noteq> None"
  with assms have all: "\<forall>j. 0 \<le> j \<and> j \<le> int (len idx) \<longrightarrow> Itoa j \<in> fmdom' idx"
    by (metis fmdom'I not_None_eq order_le_less)
  have "(Itoa \<circ> int) ` {0..len idx} \<subseteq> fmdom' idx"
    using all by auto
  moreover have "inj_on (Itoa \<circ> int) {0..len idx}"
    by (auto simp: inj_on_def dest: Itoa_inj)
  ultimately have "card {0..len idx} \<le> card (fmdom' idx)"
    by (metis card_image card_mono finite_fmdom')
  then show False by (simp add: len_def fcard.rep_eq fmdom'_alt_def)
qed

lemma allocateIndex_spec:
  "0 \<le> allocateIndex idx \<and> allocateIndex idx \<le> int (len idx) \<and>
   fmlookup idx (Itoa (allocateIndex idx)) = None \<and>
   (\<forall>j. 0 \<le> j \<and> j < allocateIndex idx \<longrightarrow> fmlookup idx (Itoa j) \<noteq> None)"
proof -
  have s: "0 \<le> allocateIndex idx \<and>
   (\<forall>j. 0 \<le> j \<and> j < allocateIndex idx \<longrightarrow> fmlookup idx (Itoa j) \<noteq> None) \<and>
   (allocateIndex idx < int (len idx) \<longrightarrow> fmlookup idx (Itoa (allocateIndex idx)) = None) \<and>
   allocateIndex idx \<le> int (len idx)"
  proof -
    have "\<forall>j. 0 \<le> j \<and> j < (0::int) \<longrightarrow> fmlookup idx (Itoa j) \<noteq> None" by auto
    from allocLoop_spec[OF _ _ this] show ?thesis unfolding allocateIndex_def by simp
  qed
  show ?thesis
  proof (cases "allocateIndex idx < int (len idx)")
    case True
    with s show ?thesis by simp
  next
    case False
    with s have e: "allocateIndex idx = int (len idx)" by simp
    with s full_range_next_free[of idx] show ?thesis by simp
  qed
qed

text \<open>
  C1. The index that the creation pass allocates (lines 194 to 204) is the lowest
  non-negative integer whose decimal string is not a key of \<^verbatim>\<open>Indexes\<close>: it is not a
  key, every non-negative integer below it is one, and it is at most the size of the map,
  so it is the smallest gap below the size if there is one and the size otherwise. For a
  map with the keys 0, 1 and 3 it is 2, and for the keys 0, 1 and 2 it is 3.
\<close>

theorem C1_allocateIndex_lowest_free:
  "0 \<le> allocateIndex idx \<and> allocateIndex idx \<le> int (len idx) \<and>
   fmlookup idx (Itoa (allocateIndex idx)) = None \<and>
   (\<forall>j. 0 \<le> j \<and> j < allocateIndex idx \<longrightarrow> fmlookup idx (Itoa j) \<noteq> None) \<and>
   (allocateIndex idx < int (len idx) \<or>
      (\<forall>j. 0 \<le> j \<and> j < int (len idx) \<longrightarrow> fmlookup idx (Itoa j) \<noteq> None)) \<and>
   allocateIndex (fmap_of_list [(''0'', a), (''1'', b), (''3'', c)]) = 2 \<and>
   allocateIndex (fmap_of_list [(''0'', a), (''1'', b), (''2'', c)]) = 3"
proof -
  have e1: "allocateIndex (fmap_of_list [(''0'', a), (''1'', b), (''3'', c)]) = 2"
    by (simp add: allocateIndex_def allocLoop.simps len_def fcard_finsert_if Itoa_def
          FormatUint.simps digit_def)
  have e2: "allocateIndex (fmap_of_list [(''0'', a), (''1'', b), (''2'', c)]) = 3"
    by (simp add: allocateIndex_def allocLoop.simps len_def fcard_finsert_if Itoa_def
          FormatUint.simps digit_def)
  from allocateIndex_spec[of idx] e1 e2 show ?thesis by force
qed

theorem C1_allocateIndex_lowest_free_witness:
  "allocateIndex (fmap_of_list [(''0'', ''m0''), (''2'', ''m2''), (''3'', ''m3'')]) = 1 \<and>
   fmlookup (fmap_of_list [(''0'', ''m0''), (''2'', ''m2''), (''3'', ''m3'')]) (Itoa 1) = None \<and>
   fmlookup (fmap_of_list [(''0'', ''m0''), (''2'', ''m2''), (''3'', ''m3'')]) (Itoa 0) \<noteq> None"
proof -
  have v: "allocateIndex (fmap_of_list [(''0'', ''m0''), (''2'', ''m2''), (''3'', ''m3'')]) = 1"
    by code_simp
  from C1_allocateIndex_lowest_free
         [of "fmap_of_list [(''0'', ''m0''), (''2'', ''m2''), (''3'', ''m3'')]"]
  show ?thesis unfolding v by simp
qed

subsection \<open>RecreateStatus\<close>

lemma RecreateStatus_loop_append:
  "RecreateStatus_loop name (xs @ ys) maps =
   RecreateStatus_loop name ys (RecreateStatus_loop name xs maps)"
  by (induction xs arbitrary: maps) simp_all

lemma RecreateStatus_loop_keeps_idx:
  "fmlookup (fst maps) k \<noteq> None \<Longrightarrow>
   fmlookup (fst (RecreateStatus_loop name objs maps)) k \<noteq> None"
  by (induction objs arbitrary: maps) (simp_all add: RecreateStatus_item_def)

lemma RecreateStatus_loop_keeps_dn:
  "fmlookup (snd maps) k \<noteq> None \<Longrightarrow>
   fmlookup (snd (RecreateStatus_loop name objs maps)) k \<noteq> None"
  by (induction objs arbitrary: maps) (simp_all add: RecreateStatus_item_def)

lemma RecreateStatus_loop_reserves:
  "obj \<in> set objs \<Longrightarrow> pointsTo name obj \<Longrightarrow>
   fmlookup (fst (RecreateStatus_loop name objs maps)) (Itoa (specIndex (dataSpec obj))) \<noteq> None \<and>
   fmlookup (snd (RecreateStatus_loop name objs maps)) (machineNameOf obj) \<noteq> None"
proof (induction objs arbitrary: maps)
  case Nil
  then show ?case by simp
next
  case (Cons a objs)
  show ?case
  proof (cases "obj = a")
    case True
    with Cons.prems(2) show ?thesis
      by (simp add: RecreateStatus_loop_keeps_idx RecreateStatus_loop_keeps_dn
            RecreateStatus_item_def)
  next
    case False
    with Cons.prems have "obj \<in> set objs" by simp
    from Cons.IH[OF this Cons.prems(2)] show ?thesis by simp
  qed
qed

lemma RecreateStatus_loop_origin_idx:
  "fmlookup (fst (RecreateStatus_loop name objs maps)) k = Some v \<Longrightarrow>
   fmlookup (fst maps) k = Some v \<or>
   (\<exists>obj\<in>set objs. pointsTo name obj \<and> k = Itoa (specIndex (dataSpec obj)) \<and>
      v = machineNameOf obj)"
proof (induction objs arbitrary: maps)
  case Nil
  then show ?case by simp
next
  case (Cons a objs)
  from Cons.prems have
    "fmlookup (fst (RecreateStatus_loop name objs (RecreateStatus_item name a maps))) k = Some v"
    by simp
  from Cons.IH[OF this] show ?case
    by (auto simp: RecreateStatus_item_def split: if_splits)
qed

lemma RecreateStatus_loop_origin_dn:
  "fmlookup (snd (RecreateStatus_loop name objs maps)) k = Some v \<Longrightarrow>
   fmlookup (snd maps) k = Some v \<or>
   (\<exists>obj\<in>set objs. pointsTo name obj \<and> k = machineNameOf obj \<and> v = dataName obj)"
proof (induction objs arbitrary: maps)
  case Nil
  then show ?case by simp
next
  case (Cons a objs)
  from Cons.prems have
    "fmlookup (snd (RecreateStatus_loop name objs (RecreateStatus_item name a maps))) k = Some v"
    by simp
  from Cons.IH[OF this] show ?case
    by (auto simp: RecreateStatus_item_def split: if_splits)
qed

lemma RecreateStatus_loop_untouched_idx:
  "\<forall>x\<in>set objs. pointsTo name x \<longrightarrow> specIndex (dataSpec x) \<noteq> i \<Longrightarrow>
   fmlookup (fst (RecreateStatus_loop name objs maps)) (Itoa i) = fmlookup (fst maps) (Itoa i)"
  by (induction objs arbitrary: maps) (simp_all add: RecreateStatus_item_def)

lemma RecreateStatus_loop_untouched_dn:
  "\<forall>x\<in>set objs. pointsTo name x \<longrightarrow> machineNameOf x \<noteq> k \<Longrightarrow>
   fmlookup (snd (RecreateStatus_loop name objs maps)) k = fmlookup (snd maps) k"
  by (induction objs arbitrary: maps) (simp_all add: RecreateStatus_item_def)

lemma RecreateStatus_loop_last_idx:
  assumes "objs = pre @ obj # post" "pointsTo name obj"
    "\<forall>x\<in>set post. pointsTo name x \<longrightarrow> specIndex (dataSpec x) \<noteq> specIndex (dataSpec obj)"
  shows "fmlookup (fst (RecreateStatus_loop name objs maps)) (Itoa (specIndex (dataSpec obj))) =
         Some (machineNameOf obj)"
  using assms(2) unfolding assms(1) RecreateStatus_loop_append
  by (simp add: RecreateStatus_loop_untouched_idx[OF assms(3)] RecreateStatus_item_def)

lemma RecreateStatus_loop_last_dn:
  assumes "objs = pre @ obj # post" "pointsTo name obj"
    "\<forall>x\<in>set post. pointsTo name x \<longrightarrow> machineNameOf x \<noteq> machineNameOf obj"
  shows "fmlookup (snd (RecreateStatus_loop name objs maps)) (machineNameOf obj) =
         Some (dataName obj)"
  using assms(2) unfolding assms(1) RecreateStatus_loop_append
  by (simp add: RecreateStatus_loop_untouched_dn[OF assms(3)] RecreateStatus_item_def)

lemma RecreateStatus_listed:
  assumes "clientList d (client m) (tplNamespace (DataTemplate m)) = (Inr objs, w)"
  shows "RecreateStatus d m =
     (None, m\<lparr>client := w, clock := Suc (clock m),
              DataTemplate := (DataTemplate m)\<lparr>Status :=
                (Status (DataTemplate m))\<lparr>
                  Indexes := Some (fst (RecreateStatus_loop (tplName (DataTemplate m)) objs (fmempty, fmempty))),
                  DataNames := Some (snd (RecreateStatus_loop (tplName (DataTemplate m)) objs (fmempty, fmempty))),
                  LastUpdated := Some (Suc (clock m))\<rparr>\<rparr>\<rparr>)"
  using assms
  by (simp add: RecreateStatus_def mapStatus_def updateStatusTimestamp_def Let_def)


lemma exObjects_listed: "clientList memDeps (client exListed)
         (tplNamespace (DataTemplate exListed)) =
       (Inr exObjects, client exListed)"
  by (simp add: exListed_def exManager_def exTemplate_def memDeps_def memList_def exObjects_def
        exData_def)

lemma pointsTo_iff:
  "pointsTo name obj \<longleftrightarrow>
   (\<exists>r. specDataTemplate (dataSpec obj) = Some r \<and> refName r = name)"
  by (simp add: pointsTo_def split: option.split)

lemma RecreateStatus_loop_spec:
  fixes name objs
  defines "maps \<equiv> RecreateStatus_loop name objs (fmempty, fmempty)"
  shows "(\<forall>obj\<in>set objs. pointsTo name obj \<longrightarrow>
        fmlookup (fst maps) (Itoa (specIndex (dataSpec obj))) \<noteq> None \<and>
        fmlookup (snd maps) (machineNameOf obj) \<noteq> None) \<and>
     (\<forall>pre obj post. objs = pre @ obj # post \<and> pointsTo name obj \<longrightarrow>
        ((\<forall>x\<in>set post. pointsTo name x \<longrightarrow>
             specIndex (dataSpec x) \<noteq> specIndex (dataSpec obj)) \<longrightarrow>
           fmlookup (fst maps) (Itoa (specIndex (dataSpec obj))) = Some (machineNameOf obj)) \<and>
        ((\<forall>x\<in>set post. pointsTo name x \<longrightarrow>
             machineNameOf x \<noteq> machineNameOf obj) \<longrightarrow>
           fmlookup (snd maps) (machineNameOf obj) = Some (dataName obj))) \<and>
     (\<forall>k v. fmlookup (fst maps) k = Some v \<longrightarrow>
        (\<exists>obj\<in>set objs. pointsTo name obj \<and>
           k = Itoa (specIndex (dataSpec obj)) \<and> v = machineNameOf obj)) \<and>
     (\<forall>k v. fmlookup (snd maps) k = Some v \<longrightarrow>
        (\<exists>obj\<in>set objs. pointsTo name obj \<and>
           k = machineNameOf obj \<and> v = dataName obj))"
proof -
  have a: "\<forall>obj\<in>set objs. pointsTo name obj \<longrightarrow>
        fmlookup (fst maps) (Itoa (specIndex (dataSpec obj))) \<noteq> None \<and>
        fmlookup (snd maps) (machineNameOf obj) \<noteq> None"
    unfolding maps_def using RecreateStatus_loop_reserves by blast
  have b: "\<forall>pre obj post. objs = pre @ obj # post \<and> pointsTo name obj \<longrightarrow>
        ((\<forall>x\<in>set post. pointsTo name x \<longrightarrow>
             specIndex (dataSpec x) \<noteq> specIndex (dataSpec obj)) \<longrightarrow>
           fmlookup (fst maps) (Itoa (specIndex (dataSpec obj))) = Some (machineNameOf obj)) \<and>
        ((\<forall>x\<in>set post. pointsTo name x \<longrightarrow>
             machineNameOf x \<noteq> machineNameOf obj) \<longrightarrow>
           fmlookup (snd maps) (machineNameOf obj) = Some (dataName obj))"
    unfolding maps_def using RecreateStatus_loop_last_idx RecreateStatus_loop_last_dn by blast
  have c: "\<forall>k v. fmlookup (fst maps) k = Some v \<longrightarrow>
        (\<exists>obj\<in>set objs. pointsTo name obj \<and>
           k = Itoa (specIndex (dataSpec obj)) \<and> v = machineNameOf obj)"
    unfolding maps_def
    using RecreateStatus_loop_origin_idx[of name objs "(fmempty, fmempty)"] by auto
  have e: "\<forall>k v. fmlookup (snd maps) k = Some v \<longrightarrow>
        (\<exists>obj\<in>set objs. pointsTo name obj \<and>
           k = machineNameOf obj \<and> v = dataName obj)"
    unfolding maps_def
    using RecreateStatus_loop_origin_dn[of name objs "(fmempty, fmempty)"] by auto
  from a b c e show ?thesis by blast
qed

lemma exListed_rebuilt:
  "RecreateStatus memDeps exListed =
     (None, exListed\<lparr>client := client exListed, clock := Suc (clock exListed),
        DataTemplate := (DataTemplate exListed)\<lparr>Status :=
          \<lparr>Indexes = Some (fmap_of_list [(''0'', ''m1''), (''1'', []), (''3'', [])]),
           DataNames = Some (fmap_of_list [(''m1'', ''tpl-0''), ([], ''tpl-3'')]),
           LastUpdated = Some (Suc (clock exListed))\<rparr>\<rparr>\<rparr>)"
  by code_simp

text \<open>
  C5. When the client lists the objects \<open>objs\<close> of the template's namespace,
  \<^verbatim>\<open>RecreateStatus\<close> returns no error and replaces the status by two maps and the time of
  the call, and changes nothing else of the template. Every listed object whose
  \<^verbatim>\<open>Spec.DataTemplate\<close> is set and has the name of the template reserves its index in
  \<^verbatim>\<open>Indexes\<close> and its owner name in \<^verbatim>\<open>DataNames\<close>, where the owner name is the name of
  \<^verbatim>\<open>Spec.Metal3Machine\<close>, and the empty string when that reference is \<^verbatim>\<open>nil\<close>; the
  entries it sets are \<^verbatim>\<open>Indexes[Itoa(index)] = owner name\<close> and
  \<^verbatim>\<open>DataNames[owner name] = object name\<close>, and each stands unless a later object of the
  list that references the template sets the same key. No entry comes from anything else:
  objects whose \<^verbatim>\<open>Spec.DataTemplate\<close> is \<^verbatim>\<open>nil\<close> or names another template contribute
  nothing. The timestamp is set, and the clock is read once.
\<close>

theorem C5_RecreateStatus_rebuilds:
  assumes "clientList d (client m) (tplNamespace (DataTemplate m)) = (Inr objs, w)"
  shows "\<exists>idx dn.
     RecreateStatus d m =
       (None, m\<lparr>client := w, clock := Suc (clock m),
                DataTemplate := (DataTemplate m)\<lparr>Status :=
                  \<lparr>Indexes = Some idx, DataNames = Some dn,
                   LastUpdated = Some (Suc (clock m))\<rparr>\<rparr>\<rparr>) \<and>
     (\<forall>obj\<in>set objs.
        (\<exists>r. specDataTemplate (dataSpec obj) = Some r \<and> refName r = tplName (DataTemplate m)) \<longrightarrow>
        fmlookup idx (Itoa (specIndex (dataSpec obj))) \<noteq> None \<and>
        fmlookup dn (case specMetal3Machine (dataSpec obj) of None \<Rightarrow> [] | Some r \<Rightarrow> refName r)
          \<noteq> None) \<and>
     (\<forall>pre obj post. objs = pre @ obj # post \<and>
        (\<exists>r. specDataTemplate (dataSpec obj) = Some r \<and> refName r = tplName (DataTemplate m)) \<longrightarrow>
        ((\<forall>x\<in>set post.
             (\<exists>r. specDataTemplate (dataSpec x) = Some r \<and> refName r = tplName (DataTemplate m)) \<longrightarrow>
             specIndex (dataSpec x) \<noteq> specIndex (dataSpec obj)) \<longrightarrow>
           fmlookup idx (Itoa (specIndex (dataSpec obj))) =
             Some (case specMetal3Machine (dataSpec obj) of None \<Rightarrow> [] | Some r \<Rightarrow> refName r)) \<and>
        ((\<forall>x\<in>set post.
             (\<exists>r. specDataTemplate (dataSpec x) = Some r \<and> refName r = tplName (DataTemplate m)) \<longrightarrow>
             (case specMetal3Machine (dataSpec x) of None \<Rightarrow> [] | Some r \<Rightarrow> refName r) \<noteq>
             (case specMetal3Machine (dataSpec obj) of None \<Rightarrow> [] | Some r \<Rightarrow> refName r)) \<longrightarrow>
           fmlookup dn (case specMetal3Machine (dataSpec obj) of None \<Rightarrow> [] | Some r \<Rightarrow> refName r) =
             Some (dataName obj))) \<and>
     (\<forall>k v. fmlookup idx k = Some v \<longrightarrow>
        (\<exists>obj\<in>set objs.
           (\<exists>r. specDataTemplate (dataSpec obj) = Some r \<and> refName r = tplName (DataTemplate m)) \<and>
           k = Itoa (specIndex (dataSpec obj)) \<and>
           v = (case specMetal3Machine (dataSpec obj) of None \<Rightarrow> [] | Some r \<Rightarrow> refName r))) \<and>
     (\<forall>k v. fmlookup dn k = Some v \<longrightarrow>
        (\<exists>obj\<in>set objs.
           (\<exists>r. specDataTemplate (dataSpec obj) = Some r \<and> refName r = tplName (DataTemplate m)) \<and>
           k = (case specMetal3Machine (dataSpec obj) of None \<Rightarrow> [] | Some r \<Rightarrow> refName r) \<and>
           v = dataName obj))"
proof -
  let ?name = "tplName (DataTemplate m)"
  let ?maps = "RecreateStatus_loop ?name objs (fmempty, fmempty)"
  have r: "RecreateStatus d m =
       (None, m\<lparr>client := w, clock := Suc (clock m),
                DataTemplate := (DataTemplate m)\<lparr>Status :=
                  \<lparr>Indexes = Some (fst ?maps), DataNames = Some (snd ?maps),
                   LastUpdated = Some (Suc (clock m))\<rparr>\<rparr>\<rparr>)"
    using RecreateStatus_listed[OF assms] by simp
  note s = RecreateStatus_loop_spec[where name = ?name and objs = objs,
      unfolded pointsTo_iff machineNameOf_def]
  show ?thesis
    by (rule exI[of _ "fst ?maps"], rule exI[of _ "snd ?maps"], rule conjI[OF r s])
qed

text \<open>
  On the four listed objects: the object of \<^verbatim>\<open>m1\<close> gives \<^verbatim>\<open>Indexes["0"] = "m1"\<close> and
  \<^verbatim>\<open>DataNames["m1"] = "tpl-0"\<close>; the two objects without a machine reserve the indexes 1
  and 3 under the empty owner name, whose entry in \<^verbatim>\<open>DataNames\<close> is the later one; the
  object of the other template, with the index 2, leaves no entry.
\<close>

theorem C5_RecreateStatus_rebuilds_witness:
  "clientList memDeps (client exListed) (tplNamespace (DataTemplate exListed)) =
     (Inr exObjects, client exListed) \<and>
   RecreateStatus memDeps exListed =
     (None, exListed\<lparr>client := client exListed, clock := Suc (clock exListed),
        DataTemplate := (DataTemplate exListed)\<lparr>Status :=
          \<lparr>Indexes = Some (fmap_of_list [(''0'', ''m1''), (''1'', []), (''3'', [])]),
           DataNames = Some (fmap_of_list [(''m1'', ''tpl-0''), ([], ''tpl-3'')]),
           LastUpdated = Some (Suc (clock exListed))\<rparr>\<rparr>\<rparr>) \<and>
   (\<exists>idx dn.
     RecreateStatus memDeps exListed =
       (None, exListed\<lparr>client := client exListed, clock := Suc (clock exListed),
                DataTemplate := (DataTemplate exListed)\<lparr>Status :=
                  \<lparr>Indexes = Some idx, DataNames = Some dn,
                   LastUpdated = Some (Suc (clock exListed))\<rparr>\<rparr>\<rparr>) \<and>
     (\<forall>obj\<in>set exObjects.
        (\<exists>r. specDataTemplate (dataSpec obj) = Some r \<and> refName r = tplName (DataTemplate exListed)) \<longrightarrow>
        fmlookup idx (Itoa (specIndex (dataSpec obj))) \<noteq> None \<and>
        fmlookup dn (case specMetal3Machine (dataSpec obj) of None \<Rightarrow> [] | Some r \<Rightarrow> refName r)
          \<noteq> None) \<and>
     (\<forall>pre obj post. exObjects = pre @ obj # post \<and>
        (\<exists>r. specDataTemplate (dataSpec obj) = Some r \<and> refName r = tplName (DataTemplate exListed)) \<longrightarrow>
        ((\<forall>x\<in>set post.
             (\<exists>r. specDataTemplate (dataSpec x) = Some r \<and> refName r = tplName (DataTemplate exListed)) \<longrightarrow>
             specIndex (dataSpec x) \<noteq> specIndex (dataSpec obj)) \<longrightarrow>
           fmlookup idx (Itoa (specIndex (dataSpec obj))) =
             Some (case specMetal3Machine (dataSpec obj) of None \<Rightarrow> [] | Some r \<Rightarrow> refName r)) \<and>
        ((\<forall>x\<in>set post.
             (\<exists>r. specDataTemplate (dataSpec x) = Some r \<and> refName r = tplName (DataTemplate exListed)) \<longrightarrow>
             (case specMetal3Machine (dataSpec x) of None \<Rightarrow> [] | Some r \<Rightarrow> refName r) \<noteq>
             (case specMetal3Machine (dataSpec obj) of None \<Rightarrow> [] | Some r \<Rightarrow> refName r)) \<longrightarrow>
           fmlookup dn (case specMetal3Machine (dataSpec obj) of None \<Rightarrow> [] | Some r \<Rightarrow> refName r) =
             Some (dataName obj))) \<and>
     (\<forall>k v. fmlookup idx k = Some v \<longrightarrow>
        (\<exists>obj\<in>set exObjects.
           (\<exists>r. specDataTemplate (dataSpec obj) = Some r \<and> refName r = tplName (DataTemplate exListed)) \<and>
           k = Itoa (specIndex (dataSpec obj)) \<and>
           v = (case specMetal3Machine (dataSpec obj) of None \<Rightarrow> [] | Some r \<Rightarrow> refName r))) \<and>
     (\<forall>k v. fmlookup dn k = Some v \<longrightarrow>
        (\<exists>obj\<in>set exObjects.
           (\<exists>r. specDataTemplate (dataSpec obj) = Some r \<and> refName r = tplName (DataTemplate exListed)) \<and>
           k = (case specMetal3Machine (dataSpec obj) of None \<Rightarrow> [] | Some r \<Rightarrow> refName r) \<and>
           v = dataName obj)))"
  by (rule conjI[OF exObjects_listed
        conjI[OF exListed_rebuilt C5_RecreateStatus_rebuilds[OF exObjects_listed]]])

text \<open>
  C7. \<^verbatim>\<open>RecreateStatus\<close> is idempotent: when the client lists the same objects at both
  calls, a second run right after the first returns no error either and leaves the same
  \<^verbatim>\<open>Indexes\<close> and \<^verbatim>\<open>DataNames\<close>.
\<close>

theorem C7_RecreateStatus_idempotent:
  assumes "clientList d (client m) (tplNamespace (DataTemplate m)) = (Inr objs, w1)"
    and "clientList d w1 (tplNamespace (DataTemplate m)) = (Inr objs, w2)"
  shows "\<exists>m1 m2. RecreateStatus d m = (None, m1) \<and> RecreateStatus d m1 = (None, m2) \<and>
     Indexes (Status (DataTemplate m2)) = Indexes (Status (DataTemplate m1)) \<and>
     DataNames (Status (DataTemplate m2)) = DataNames (Status (DataTemplate m1))"
proof -
  obtain m1 where m1: "RecreateStatus d m = (None, m1)"
    and c1: "client m1 = w1" and n1: "tplNamespace (DataTemplate m1) = tplNamespace (DataTemplate m)"
    and t1: "tplName (DataTemplate m1) = tplName (DataTemplate m)"
    and i1: "Indexes (Status (DataTemplate m1)) =
       Some (fst (RecreateStatus_loop (tplName (DataTemplate m)) objs (fmempty, fmempty)))"
    and d1: "DataNames (Status (DataTemplate m1)) =
       Some (snd (RecreateStatus_loop (tplName (DataTemplate m)) objs (fmempty, fmempty)))"
    using RecreateStatus_listed[OF assms(1)] by simp
  have l2: "clientList d (client m1) (tplNamespace (DataTemplate m1)) = (Inr objs, w2)"
    using assms(2) c1 n1 by simp
  from RecreateStatus_listed[OF l2] m1 i1 d1 t1 show ?thesis by simp
qed

theorem C7_RecreateStatus_idempotent_witness:
  "clientList memDeps (client exListed) (tplNamespace (DataTemplate exListed)) = (Inr exObjects, client exListed) \<and>
   (\<exists>m1 m2. RecreateStatus memDeps exListed = (None, m1) \<and> RecreateStatus memDeps m1 = (None, m2) \<and>
     Indexes (Status (DataTemplate m2)) = Indexes (Status (DataTemplate m1)) \<and>
     DataNames (Status (DataTemplate m2)) = DataNames (Status (DataTemplate m1)))"
  by (rule conjI[OF exObjects_listed
        C7_RecreateStatus_idempotent[OF exObjects_listed exObjects_listed]])

subsection \<open>DeleteReady\<close>

text \<open>
  C4. \<^verbatim>\<open>DeleteReady\<close> on a template whose only owner reference is a Metal3Cluster of the
  API group \<^verbatim>\<open>infrastructure.cluster.x-k8s.io\<close>: no owner reference is a Metal3Machine,
  and the check answers \<open>False\<close>, because line 346 joins the two tests by "or" where
  the loops of \<^verbatim>\<open>CreateDatas\<close> and \<^verbatim>\<open>DeleteDatas\<close> ask for the kind and the group.
\<close>

theorem C4_DeleteReady_other_kind_blocks:
  "DeleteReady memDeps (exManager [exClusterRef] exNilStatus []) = (False, None) \<and>
   orKind exClusterRef \<noteq> ''Metal3Machine'' \<and>
   ParseGroupVersion memDeps (orAPIVersion exClusterRef) = Inr capm3_GroupVersion"
  by (simp add: DeleteReady_def exManager_def exTemplate_def exClusterRef_def memDeps_def
        memParseGroupVersion_def capm3_GroupVersion_def)

subsection \<open>The deletion pass and the status maps\<close>








lemma goLookup_goDelete [simp]:
  "goLookup (goDelete mo k) k' = (if k' = k then None else goLookup mo k')"
  by (cases mo) (simp_all add: goLookup_def goDelete_def)

lemma removeEntries_fields [simp]:
  "client (removeEntries d name m) = client m"
  "clock (removeEntries d name m) = clock m"
  "tplOwnerReferences (DataTemplate (removeEntries d name m)) = tplOwnerReferences (DataTemplate m)"
  "tplNamespace (DataTemplate (removeEntries d name m)) = tplNamespace (DataTemplate m)"
  "tplName (DataTemplate (removeEntries d name m)) = tplName (DataTemplate m)"
  "LastUpdated (Status (DataTemplate (removeEntries d name m))) = LastUpdated (Status (DataTemplate m))"
  "DataNames (Status (DataTemplate (removeEntries d name m))) =
     goDelete (DataNames (Status (DataTemplate m))) name"
  by (simp_all add: removeEntries_def mapStatus_def Let_def)






lemma client_update_status [simp]:
  "Status (DataTemplate (m\<lparr>client := w\<rparr>)) = Status (DataTemplate m)"
  by simp






lemma updateStatusTimestamp_maps [simp]:
  "Indexes (Status (DataTemplate (updateStatusTimestamp m))) = Indexes (Status (DataTemplate m))"
  "DataNames (Status (DataTemplate (updateStatusTimestamp m))) = DataNames (Status (DataTemplate m))"
  "LastUpdated (Status (DataTemplate (updateStatusTimestamp m))) = Some (Suc (clock m))"
  "clock (updateStatusTimestamp m) = Suc (clock m)"
  "client (updateStatusTimestamp m) = client m"
  "tplOwnerReferences (DataTemplate (updateStatusTimestamp m)) = tplOwnerReferences (DataTemplate m)"
  "tplName (DataTemplate (updateStatusTimestamp m)) = tplName (DataTemplate m)"
  "tplNamespace (DataTemplate (updateStatusTimestamp m)) = tplNamespace (DataTemplate m)"
  by (simp_all add: updateStatusTimestamp_def mapStatus_def)




subsection \<open>The creation pass and the status maps\<close>


lemma recordIndex_fields [simp]:
  "client (recordIndex owner i m) = client m"
  "clock (recordIndex owner i m) = clock m"
  "tplOwnerReferences (DataTemplate (recordIndex owner i m)) = tplOwnerReferences (DataTemplate m)"
  "tplNamespace (DataTemplate (recordIndex owner i m)) = tplNamespace (DataTemplate m)"
  "tplName (DataTemplate (recordIndex owner i m)) = tplName (DataTemplate m)"
  "tplLabels (DataTemplate (recordIndex owner i m)) = tplLabels (DataTemplate m)"
  "LastUpdated (Status (DataTemplate (recordIndex owner i m))) = LastUpdated (Status (DataTemplate m))"
  "Indexes (Status (DataTemplate (recordIndex owner i m))) =
     Some (fmupd (Itoa i) owner (makeIfNil (Indexes (Status (DataTemplate m)))))"
  "DataNames (Status (DataTemplate (recordIndex owner i m))) =
     Some (fmupd owner (tplName (DataTemplate m) @ ''-'' @ Itoa i)
            (makeIfNil (DataNames (Status (DataTemplate m)))))"
  by (simp_all add: recordIndex_def mapStatus_def Let_def)

lemma recordIndex_client:
  "recordIndex owner i (m\<lparr>client := w\<rparr>) = (recordIndex owner i m)\<lparr>client := w\<rparr>"
  by (simp add: recordIndex_def mapStatus_def Let_def)

lemma CreateDatas_create_cases:
  assumes "CreateDatas_create d ref cn (m, rq) = (r, m', rq')"
  obtains (recorded) w2 where
      "m' = (recordIndex (orName ref) (allocateIndex (makeIfNil (Indexes (Status (DataTemplate m))))) m)
              \<lparr>client := w2\<rparr>"
      "rq' = rq"
  | (conflict) w2 r2 where
      "RecreateStatus d ((recordIndex (orName ref)
           (allocateIndex (makeIfNil (Indexes (Status (DataTemplate m))))) m)\<lparr>client := w2\<rparr>) = (r2, m')"
      "r = r2" "rq' = (if r2 = None then True else rq)"
proof -
  let ?i = "allocateIndex (makeIfNil (Indexes (Status (DataTemplate m))))"
  let ?m2 = "recordIndex (orName ref) ?i m"
  let ?obj = "newMetal3Data (DataTemplate ?m2) ref cn ?i (tplName (DataTemplate m) @ ''-'' @ Itoa ?i)"
  obtain ro w2 where c: "createObject d (client m) ?obj = (ro, w2)"
    by (cases "createObject d (client m) ?obj")
  show thesis
  proof (cases ro)
    case None
    with c assms have "m' = ?m2\<lparr>client := w2\<rparr>" "rq' = rq"
      by (simp_all add: CreateDatas_create_def Let_def)
    then show thesis by (rule recorded)
  next
    case (Some err)
    show thesis
    proof (cases "HasRequeueAfterError err")
      case False
      with Some c assms have "m' = ?m2\<lparr>client := w2\<rparr>" "rq' = rq"
        by (simp_all add: CreateDatas_create_def Let_def)
      then show thesis by (rule recorded)
    next
      case True
      obtain r2 m3 where rs: "RecreateStatus d (?m2\<lparr>client := w2\<rparr>) = (r2, m3)"
        by (cases "RecreateStatus d (?m2\<lparr>client := w2\<rparr>)")
      with True Some c assms have "m' = m3 \<and> r = r2 \<and> rq' = (if r2 = None then True else rq)"
        by (cases r2) (auto simp add: CreateDatas_create_def Let_def)
      with rs show thesis using conflict by blast
    qed
  qed
qed

lemma CreateDatas_body_cases:
  assumes "CreateDatas_body d ref (m, rq) = (r, m', rq')"
  obtains (same) w where "m' = m\<lparr>client := w\<rparr>" "rq' = rq"
  | (create) w1 cn where
      "goLookup (DataNames (Status (DataTemplate m))) (orName ref) = None"
      "CreateDatas_create d ref cn (m\<lparr>client := w1\<rparr>, rq) = (r, m', rq')"
proof -
  have m: "m = m\<lparr>client := client m\<rparr>" by simp
  show thesis
  proof (cases "ParseGroupVersion d (orAPIVersion ref)")
    case (Inl e)
    with assms have "m' = m" "rq' = rq" by (simp_all add: CreateDatas_body_def)
    with m same show thesis by metis
  next
    case (Inr gv)
    show thesis
    proof (cases "orKind ref \<noteq> ''Metal3Machine'' \<or> Group gv \<noteq> Group capm3_GroupVersion")
      case True
      with Inr assms have "m' = m" "rq' = rq" by (simp_all add: CreateDatas_body_def)
      with m same show thesis by metis
    next
      case match: False
      show thesis
      proof (cases "goLookup (DataNames (Status (DataTemplate m))) (orName ref) \<noteq> None")
        case True
        with match Inr assms have "m' = m" "rq' = rq" by (simp_all add: CreateDatas_body_def)
        with m same show thesis by metis
      next
        case new: False
        obtain g w1 where g: "getM3Machine d (client m) (orName ref)
                   (tplNamespace (DataTemplate m)) (DataTemplate m) False = (g, w1)"
          by (cases "getM3Machine d (client m) (orName ref)
                   (tplNamespace (DataTemplate m)) (DataTemplate m) False")
        show thesis
        proof (cases g)
          case (Inl e)
          with g new match Inr assms have "m' = m\<lparr>client := w1\<rparr>" "rq' = rq"
            by (simp_all add: CreateDatas_body_def)
          then show thesis by (rule same)
        next
          case gr: (Inr mo)
          show thesis
          proof (cases mo)
            case None
            with gr g new match Inr assms have "m' = m\<lparr>client := w1\<rparr>" "rq' = rq"
              by (simp_all add: CreateDatas_body_def)
            then show thesis by (rule same)
          next
            case (Some mach)
            show thesis
            proof (cases "fmlookup (tplLabels (DataTemplate m)) ClusterLabelName")
              case None
              with Some gr g new match Inr assms have "m' = m\<lparr>client := w1\<rparr>" "rq' = rq"
                by (simp_all add: CreateDatas_body_def)
              then show thesis by (rule same)
            next
              case (Some cn)
              with \<open>mo = Some mach\<close> gr g new match Inr assms
              have "CreateDatas_create d ref cn (m\<lparr>client := w1\<rparr>, rq) = (r, m', rq')"
                by (simp add: CreateDatas_body_def)
              with new show thesis using create by blast
            qed
          qed
        qed
      qed
    qed
  qed
qed




lemma goLookup_Some_fmupd [simp]:
  "goLookup (Some (fmupd k v (makeIfNil mo))) k' = (if k' = k then Some v else goLookup mo k')"
  by (cases mo) (auto simp add: goLookup_def makeIfNil_def)






lemma RecreateStatus_result:
  assumes "RecreateStatus d m = (r, m')"
  shows "tplName (DataTemplate m') = tplName (DataTemplate m) \<and>
     tplOwnerReferences (DataTemplate m') = tplOwnerReferences (DataTemplate m) \<and>
     ((\<exists>e. r = Some e \<and> Indexes (Status (DataTemplate m')) = Some fmempty \<and>
          DataNames (Status (DataTemplate m')) = Some fmempty \<and> clock m' = clock m \<and>
          LastUpdated (Status (DataTemplate m')) = LastUpdated (Status (DataTemplate m))) \<or>
      (r = None \<and> (\<exists>objs w.
          clientList d (client m) (tplNamespace (DataTemplate m)) = (Inr objs, w) \<and>
          Indexes (Status (DataTemplate m')) =
            Some (fst (RecreateStatus_loop (tplName (DataTemplate m)) objs (fmempty, fmempty))) \<and>
          DataNames (Status (DataTemplate m')) =
            Some (snd (RecreateStatus_loop (tplName (DataTemplate m)) objs (fmempty, fmempty))))))"
proof -
  obtain l w where l: "clientList d (client m) (tplNamespace (DataTemplate m)) = (l, w)"
    by (cases "clientList d (client m) (tplNamespace (DataTemplate m))")
  show ?thesis
  proof (cases l)
    case (Inl e)
    with l assms show ?thesis
      by (auto simp add: RecreateStatus_def mapStatus_def Let_def)
  next
    case (Inr objs)
    with l have ll: "clientList d (client m) (tplNamespace (DataTemplate m)) = (Inr objs, w)" by simp
    from RecreateStatus_listed[OF ll] assms ll show ?thesis by auto
  qed
qed















subsection \<open>The creation pass: owners that have their entries, conflicts and errors\<close>


lemma CreateDatas_loop_append:
  "CreateDatas_loop d (xs @ ys) mr =
     (case CreateDatas_loop d xs mr of
        (Some e, mr') \<Rightarrow> (Some e, mr')
      | (None, mr') \<Rightarrow> CreateDatas_loop d ys mr')"
proof (induction xs arbitrary: mr)
  case Nil
  then show ?case by simp
next
  case (Cons x xs)
  obtain r mr1 where b: "CreateDatas_body d x mr = (r, mr1)"
    by (cases "CreateDatas_body d x mr")
  show ?case by (cases r) (simp_all add: b Cons.IH)
qed

lemma newMetal3Data_recordIndex:
  "newMetal3Data (DataTemplate (recordIndex owner i m)) ref cn j name =
   newMetal3Data (DataTemplate m) ref cn j name"
  by (simp add: newMetal3Data_def recordIndex_def mapStatus_def Let_def)

lemma CreateDatas_body_reaches_create:
  assumes "ParseGroupVersion d (orAPIVersion ref) = Inr gv"
    and "orKind ref = ''Metal3Machine''" and "Group gv = Group capm3_GroupVersion"
    and "goLookup (DataNames (Status (DataTemplate m))) (orName ref) = None"
    and "getM3Machine d (client m) (orName ref) (tplNamespace (DataTemplate m)) (DataTemplate m)
           False = (Inr (Some mach), w1)"
    and "fmlookup (tplLabels (DataTemplate m)) ClusterLabelName = Some cn"
  shows "CreateDatas_body d ref (m, rq) = CreateDatas_create d ref cn (m\<lparr>client := w1\<rparr>, rq)"
  using assms by (simp add: CreateDatas_body_def)

lemma CreateDatas_create_result:
  assumes "i = allocateIndex (makeIfNil (Indexes (Status (DataTemplate m))))"
    and "createObject d (client m)
           (newMetal3Data (DataTemplate m) ref cn i (tplName (DataTemplate m) @ ''-'' @ Itoa i)) =
         (ro, w2)"
  shows "CreateDatas_create d ref cn (m, rq) =
     (case ro of
        None \<Rightarrow> (None, (recordIndex (orName ref) i m)\<lparr>client := w2\<rparr>, rq)
      | Some err \<Rightarrow>
          if HasRequeueAfterError err then
            (case RecreateStatus d ((recordIndex (orName ref) i m)\<lparr>client := w2\<rparr>) of
               (Some err2, m3) \<Rightarrow> (Some err2, m3, rq)
             | (None, m3) \<Rightarrow> (None, m3, True))
          else (Some err, (recordIndex (orName ref) i m)\<lparr>client := w2\<rparr>, rq))"
  using assms
  by (simp add: CreateDatas_create_def Let_def newMetal3Data_recordIndex split: option.splits)

lemma CreateDatas_body_keeps_timestamp:
  assumes "CreateDatas_body d ref (m, rq) = (r, m', rq')" and "\<not> rq'"
  shows "\<not> rq \<and> clock m' = clock m \<and>
         LastUpdated (Status (DataTemplate m')) = LastUpdated (Status (DataTemplate m))"
  using assms(1)
proof (cases rule: CreateDatas_body_cases)
  case (same w)
  with assms(2) show ?thesis by simp
next
  case (create w1 cn)
  from create(2) show ?thesis
  proof (cases rule: CreateDatas_create_cases)
    case (recorded w2)
    with assms(2) show ?thesis by simp
  next
    case (conflict w2 r2)
    from conflict(3) assms(2) obtain e where e: "r2 = Some e" and rq: "rq' = rq"
      by (cases r2) auto
    from RecreateStatus_result[OF conflict(1)] e rq assms(2) show ?thesis by simp
  qed
qed

lemma CreateDatas_loop_keeps_timestamp:
  "CreateDatas_loop d refs (m, rq) = (r, m', rq') \<Longrightarrow> \<not> rq' \<Longrightarrow>
   \<not> rq \<and> clock m' = clock m \<and>
   LastUpdated (Status (DataTemplate m')) = LastUpdated (Status (DataTemplate m))"
proof (induction refs arbitrary: m rq)
  case Nil
  then show ?case by simp
next
  case (Cons ref refs)
  obtain r1 m1 rq1 where b: "CreateDatas_body d ref (m, rq) = (r1, m1, rq1)"
    by (cases "CreateDatas_body d ref (m, rq)")
  show ?case
  proof (cases r1)
    case None
    with Cons.prems(1) b have l: "CreateDatas_loop d refs (m1, rq1) = (r, m', rq')" by simp
    from Cons.IH[OF l Cons.prems(2)] have 1: "\<not> rq1" "clock m' = clock m1"
      "LastUpdated (Status (DataTemplate m')) = LastUpdated (Status (DataTemplate m1))"
      by simp_all
    from CreateDatas_body_keeps_timestamp[OF b 1(1)] 1 show ?thesis by simp
  next
    case (Some e)
    with Cons.prems(1) b have "m' = m1" "rq' = rq1" by simp_all
    with CreateDatas_body_keeps_timestamp[OF b] Cons.prems(2) show ?thesis by simp
  qed
qed



lemma CreateDatas_loop_skips:
  assumes "\<forall>ref\<in>set refs. \<forall>gv.
       ParseGroupVersion d (orAPIVersion ref) = Inr gv \<and> orKind ref = ''Metal3Machine'' \<and>
       Group gv = Group capm3_GroupVersion \<longrightarrow>
       goLookup (DataNames (Status (DataTemplate m))) (orName ref) \<noteq> None"
  shows "CreateDatas_loop d refs (m, rq) = (None, m, rq) \<or>
     (\<exists>ref\<in>set refs. \<exists>err. ParseGroupVersion d (orAPIVersion ref) = Inl err \<and>
        CreateDatas_loop d refs (m, rq) = (Some err, m, rq))"
  using assms
proof (induction refs)
  case Nil
  then show ?case by simp
next
  case (Cons ref refs)
  show ?case
  proof (cases "ParseGroupVersion d (orAPIVersion ref)")
    case (Inl err)
    then have "CreateDatas_loop d (ref # refs) (m, rq) = (Some err, m, rq)"
      by (simp add: CreateDatas_body_def)
    with Inl show ?thesis by auto
  next
    case (Inr gv)
    have b: "CreateDatas_body d ref (m, rq) = (None, m, rq)"
    proof (cases "orKind ref \<noteq> ''Metal3Machine'' \<or> Group gv \<noteq> Group capm3_GroupVersion")
      case True
      with Inr show ?thesis by (simp add: CreateDatas_body_def)
    next
      case False
      with Inr Cons.prems
      have "goLookup (DataNames (Status (DataTemplate m))) (orName ref) \<noteq> None" by simp
      with False Inr show ?thesis by (simp add: CreateDatas_body_def)
    qed
    from Cons.IH Cons.prems
    have "CreateDatas_loop d refs (m, rq) = (None, m, rq) \<or>
     (\<exists>ref\<in>set refs. \<exists>err. ParseGroupVersion d (orAPIVersion ref) = Inl err \<and>
        CreateDatas_loop d refs (m, rq) = (Some err, m, rq))" by simp
    with b show ?thesis by auto
  qed
qed



lemma CreateDatas_at_owner:
  assumes refs: "tplOwnerReferences (DataTemplate m0) = pre @ ref # post"
    and pre: "CreateDatas_loop d pre (m0, False) = (None, m, rq)"
    and parse: "ParseGroupVersion d (orAPIVersion ref) = Inr gv"
    and kind: "orKind ref = ''Metal3Machine''" and grp: "Group gv = Group capm3_GroupVersion"
    and new: "goLookup (DataNames (Status (DataTemplate m))) (orName ref) = None"
    and mach: "getM3Machine d (client m) (orName ref) (tplNamespace (DataTemplate m))
                 (DataTemplate m) False = (Inr (Some mach), w1)"
    and lbl: "fmlookup (tplLabels (DataTemplate m)) ClusterLabelName = Some cn"
    and i: "i = allocateIndex (makeIfNil (Indexes (Status (DataTemplate m))))"
    and create: "createObject d w1
                   (newMetal3Data (DataTemplate m) ref cn i (tplName (DataTemplate m) @ ''-'' @ Itoa i)) =
                 (Some e, w2)"
  shows "CreateDatas_body d ref (m, rq) =
           (if HasRequeueAfterError e then
              (case RecreateStatus d ((recordIndex (orName ref) i m)\<lparr>client := w2\<rparr>) of
                 (Some err2, m3) \<Rightarrow> (Some err2, m3, rq)
               | (None, m3) \<Rightarrow> (None, m3, True))
            else (Some e, (recordIndex (orName ref) i m)\<lparr>client := w2\<rparr>, rq))"
    and "CreateDatas d m0 =
           (case CreateDatas_loop d (ref # post) (m, rq) of
              (Some err, m', rq') \<Rightarrow> (Some err, m')
            | (None, m', rq') \<Rightarrow>
                (if rq' then Some (RequeueAfterError 0) else None, updateStatusTimestamp m'))"
proof -
  have i': "i = allocateIndex (makeIfNil (Indexes (Status (DataTemplate (m\<lparr>client := w1\<rparr>)))))"
    using i by simp
  have c': "createObject d (client (m\<lparr>client := w1\<rparr>))
      (newMetal3Data (DataTemplate (m\<lparr>client := w1\<rparr>)) ref cn i
         (tplName (DataTemplate (m\<lparr>client := w1\<rparr>)) @ ''-'' @ Itoa i)) = (Some e, w2)"
    using create by simp
  show "CreateDatas_body d ref (m, rq) =
           (if HasRequeueAfterError e then
              (case RecreateStatus d ((recordIndex (orName ref) i m)\<lparr>client := w2\<rparr>) of
                 (Some err2, m3) \<Rightarrow> (Some err2, m3, rq)
               | (None, m3) \<Rightarrow> (None, m3, True))
            else (Some e, (recordIndex (orName ref) i m)\<lparr>client := w2\<rparr>, rq))"
    unfolding CreateDatas_body_reaches_create[OF parse kind grp new mach lbl]
      CreateDatas_create_result[OF i' c']
    by (simp add: recordIndex_client)
  show "CreateDatas d m0 =
           (case CreateDatas_loop d (ref # post) (m, rq) of
              (Some err, m', rq') \<Rightarrow> (Some err, m')
            | (None, m', rq') \<Rightarrow>
                (if rq' then Some (RequeueAfterError 0) else None, updateStatusTimestamp m'))"
    unfolding CreateDatas_def refs CreateDatas_loop_append pre by simp
qed

lemma createAttempt_at_owner:
  assumes "createAttempt d m0 pre ref post m rq cn i w1 (Some e) w2"
  shows "CreateDatas_body d ref (m, rq) =
           (if HasRequeueAfterError e then
              (case RecreateStatus d ((recordIndex (orName ref) i m)\<lparr>client := w2\<rparr>) of
                 (Some err2, m3) \<Rightarrow> (Some err2, m3, rq)
               | (None, m3) \<Rightarrow> (None, m3, True))
            else (Some e, (recordIndex (orName ref) i m)\<lparr>client := w2\<rparr>, rq))"
    and "CreateDatas d m0 =
           (case CreateDatas_loop d (ref # post) (m, rq) of
              (Some err, m', rq') \<Rightarrow> (Some err, m')
            | (None, m', rq') \<Rightarrow>
                (if rq' then Some (RequeueAfterError 0) else None, updateStatusTimestamp m'))"
    and "CreateDatas_loop d pre (m0, False) = (None, m, rq)"
proof -
  from assms have refs: "tplOwnerReferences (DataTemplate m0) = pre @ ref # post"
    and pre: "CreateDatas_loop d pre (m0, False) = (None, m, rq)"
    and kind: "orKind ref = ''Metal3Machine''"
    and new: "goLookup (DataNames (Status (DataTemplate m))) (orName ref) = None"
    and lbl: "fmlookup (tplLabels (DataTemplate m)) ClusterLabelName = Some cn"
    and i: "i = allocateIndex (makeIfNil (Indexes (Status (DataTemplate m))))"
    and create: "createObject d w1
                   (newMetal3Data (DataTemplate m) ref cn i (tplName (DataTemplate m) @ ''-'' @ Itoa i)) =
                 (Some e, w2)"
    unfolding createAttempt_def by blast+
  from assms have p: "(case ParseGroupVersion d (orAPIVersion ref) of
        Inl err \<Rightarrow> False
      | Inr gv \<Rightarrow> Group gv = Group capm3_GroupVersion)"
    unfolding createAttempt_def by (elim conjE)
  then obtain gv where parse: "ParseGroupVersion d (orAPIVersion ref) = Inr gv"
    and grp: "Group gv = Group capm3_GroupVersion"
    by (cases "ParseGroupVersion d (orAPIVersion ref)") simp_all
  from assms have g: "(case getM3Machine d (client m) (orName ref)
       (tplNamespace (DataTemplate m)) (DataTemplate m) False of
        (Inr (Some mach), w) \<Rightarrow> w = w1
      | _ \<Rightarrow> False)"
    unfolding createAttempt_def by (elim conjE)
  obtain x w where gw: "getM3Machine d (client m) (orName ref)
       (tplNamespace (DataTemplate m)) (DataTemplate m) False = (x, w)"
    by (cases "getM3Machine d (client m) (orName ref)
       (tplNamespace (DataTemplate m)) (DataTemplate m) False")
  have "\<exists>mach. x = Inr (Some mach) \<and> w = w1"
  proof (cases x)
    case (Inl a)
    with g gw show ?thesis by simp
  next
    case (Inr mo)
    with g gw show ?thesis by (cases mo) simp_all
  qed
  with gw obtain mach where mach: "getM3Machine d (client m) (orName ref)
       (tplNamespace (DataTemplate m)) (DataTemplate m) False = (Inr (Some mach), w1)"
    by blast
  note a = CreateDatas_at_owner[OF refs pre parse kind grp new mach lbl i create]
  from a(1) show "CreateDatas_body d ref (m, rq) =
           (if HasRequeueAfterError e then
              (case RecreateStatus d ((recordIndex (orName ref) i m)\<lparr>client := w2\<rparr>) of
                 (Some err2, m3) \<Rightarrow> (Some err2, m3, rq)
               | (None, m3) \<Rightarrow> (None, m3, True))
            else (Some e, (recordIndex (orName ref) i m)\<lparr>client := w2\<rparr>, rq))" .
  from a(2) show "CreateDatas d m0 =
           (case CreateDatas_loop d (ref # post) (m, rq) of
              (Some err, m', rq') \<Rightarrow> (Some err, m')
            | (None, m', rq') \<Rightarrow>
                (if rq' then Some (RequeueAfterError 0) else None, updateStatusTimestamp m'))" .
  from pre show "CreateDatas_loop d pre (m0, False) = (None, m, rq)" .
qed


lemma exFresh_attempt:
  "createAttempt exFailingDeps exFresh [] (exMachineRef ''m1'') [exMachineRef ''m2''] exFresh False
     ''cluster'' 0 (client exFresh) (Some (Other ''internal error'')) (client exFresh)"
  by code_simp

text \<open>
  C9. When every owner reference that is a Metal3Machine of the API group already has an
  entry in \<^verbatim>\<open>DataNames\<close>, the creation pass calls no collaborator and creates nothing: it
  returns no error and no requeue signal and changes only the timestamp, or it returns the
  error of an owner reference whose \<^verbatim>\<open>apiVersion\<close> does not parse and changes nothing.
  Either way the client's state, \<^verbatim>\<open>Indexes\<close> and \<^verbatim>\<open>DataNames\<close> are as before.
\<close>

theorem C9_CreateDatas_idempotent:
  assumes "allProvisioned d m"
  shows "(CreateDatas d m = (None, updateStatusTimestamp m) \<or>
          (\<exists>ref\<in>set (tplOwnerReferences (DataTemplate m)). \<exists>err.
             ParseGroupVersion d (orAPIVersion ref) = Inl err \<and>
             CreateDatas d m = (Some err, m))) \<and>
         client (snd (CreateDatas d m)) = client m \<and>
         Indexes (Status (DataTemplate (snd (CreateDatas d m)))) = Indexes (Status (DataTemplate m)) \<and>
         DataNames (Status (DataTemplate (snd (CreateDatas d m)))) =
           DataNames (Status (DataTemplate m))"
proof -
  from assms have "\<forall>ref\<in>set (tplOwnerReferences (DataTemplate m)). \<forall>gv.
       ParseGroupVersion d (orAPIVersion ref) = Inr gv \<and> orKind ref = ''Metal3Machine'' \<and>
       Group gv = Group capm3_GroupVersion \<longrightarrow>
       goLookup (DataNames (Status (DataTemplate m))) (orName ref) \<noteq> None"
    unfolding allProvisioned_def list_all_iff by fastforce
  from CreateDatas_loop_skips[OF this, of False]
  have "CreateDatas d m = (None, updateStatusTimestamp m) \<or>
          (\<exists>ref\<in>set (tplOwnerReferences (DataTemplate m)). \<exists>err.
             ParseGroupVersion d (orAPIVersion ref) = Inl err \<and>
             CreateDatas d m = (Some err, m))"
    by (auto simp: CreateDatas_def)
  then show ?thesis by auto
qed

theorem C9_CreateDatas_idempotent_witness:
  "allProvisioned memDeps exDone \<and>
   CreateDatas memDeps exDone = (None, updateStatusTimestamp exDone) \<and>
   client (snd (CreateDatas memDeps exDone)) = client exDone \<and>
   Indexes (Status (DataTemplate (snd (CreateDatas memDeps exDone)))) =
     Indexes (Status (DataTemplate exDone)) \<and>
   DataNames (Status (DataTemplate (snd (CreateDatas memDeps exDone)))) =
     DataNames (Status (DataTemplate exDone))"
proof -
  have h: "allProvisioned memDeps exDone" by code_simp
  have p: "\<not> (\<exists>ref\<in>set (tplOwnerReferences (DataTemplate exDone)). \<exists>err.
             ParseGroupVersion memDeps (orAPIVersion ref) = Inl err)"
    by (simp add: exDone_def exManager_def exTemplate_def exMachineRef_def exClusterRef_def
          memDeps_def memParseGroupVersion_def)
  from C9_CreateDatas_idempotent[OF h] p h show ?thesis by blast
qed

text \<open>
  C10. When the creation pass reaches an owner reference, calls \<^verbatim>\<open>createObject\<close> for it
  and gets an error that is not a requeue error, \<^verbatim>\<open>CreateDatas\<close> returns this error, and
  the manager it leaves has the entries of the owner, \<^verbatim>\<open>Indexes[Itoa i] = owner\<close> and
  \<^verbatim>\<open>DataNames[owner] = name-i\<close>. The timestamp and the clock are what they were when
  the loop came to this owner reference: the update at the end of the pass is skipped; they
  are those of the start of the pass when no conflict came before.
\<close>

theorem C10_CreateDatas_hard_error_keeps_entries:
  assumes att: "createAttempt d m0 pre ref post m rq cn i w1 (Some e) w2"
    and hard: "\<not> HasRequeueAfterError e"
  shows "CreateDatas d m0 = (Some e, (recordIndex (orName ref) i m)\<lparr>client := w2\<rparr>) \<and>
     goLookup (Indexes (Status (DataTemplate (snd (CreateDatas d m0))))) (Itoa i) =
       Some (orName ref) \<and>
     goLookup (DataNames (Status (DataTemplate (snd (CreateDatas d m0))))) (orName ref) =
       Some (tplName (DataTemplate m) @ ''-'' @ Itoa i) \<and>
     LastUpdated (Status (DataTemplate (snd (CreateDatas d m0)))) =
       LastUpdated (Status (DataTemplate m)) \<and>
     clock (snd (CreateDatas d m0)) = clock m \<and>
     (\<not> rq \<longrightarrow>
        LastUpdated (Status (DataTemplate (snd (CreateDatas d m0)))) =
          LastUpdated (Status (DataTemplate m0)) \<and>
        clock (snd (CreateDatas d m0)) = clock m0)"
proof -
  from createAttempt_at_owner(1)[OF att] hard
  have b: "CreateDatas_body d ref (m, rq) =
             (Some e, (recordIndex (orName ref) i m)\<lparr>client := w2\<rparr>, rq)" by simp
  from createAttempt_at_owner(2)[OF att] b
  have r: "CreateDatas d m0 = (Some e, (recordIndex (orName ref) i m)\<lparr>client := w2\<rparr>)"
    by simp
  have t: "\<not> rq \<longrightarrow> clock m = clock m0 \<and>
        LastUpdated (Status (DataTemplate m)) = LastUpdated (Status (DataTemplate m0))"
    using CreateDatas_loop_keeps_timestamp[OF createAttempt_at_owner(3)[OF att]] by simp
  show ?thesis unfolding r using t by simp
qed

theorem C10_CreateDatas_hard_error_keeps_entries_witness:
  "createAttempt exFailingDeps exFresh [] (exMachineRef ''m1'') [exMachineRef ''m2''] exFresh False
     ''cluster'' 0 (client exFresh) (Some (Other ''internal error'')) (client exFresh) \<and>
   \<not> HasRequeueAfterError (Other ''internal error'') \<and>
   CreateDatas exFailingDeps exFresh =
      (Some (Other ''internal error''),
       (recordIndex (orName (exMachineRef ''m1'')) 0 exFresh)\<lparr>client := client exFresh\<rparr>) \<and>
   goLookup (Indexes (Status (DataTemplate (snd (CreateDatas exFailingDeps exFresh))))) (Itoa 0) =
     Some (orName (exMachineRef ''m1'')) \<and>
   goLookup (DataNames (Status (DataTemplate (snd (CreateDatas exFailingDeps exFresh)))))
       (orName (exMachineRef ''m1'')) =
     Some (tplName (DataTemplate exFresh) @ ''-'' @ Itoa 0) \<and>
   LastUpdated (Status (DataTemplate (snd (CreateDatas exFailingDeps exFresh)))) =
     LastUpdated (Status (DataTemplate exFresh)) \<and>
   clock (snd (CreateDatas exFailingDeps exFresh)) = clock exFresh"
proof -
  have h: "\<not> HasRequeueAfterError (Other ''internal error'')" by simp
  from C10_CreateDatas_hard_error_keeps_entries[OF exFresh_attempt h] exFresh_attempt h
  show ?thesis by blast
qed




text \<open>
  The same pass, run: the object \<^verbatim>\<open>tpl-0\<close> of another machine is in the store, the
  creation for \<^verbatim>\<open>m1\<close> meets the conflict, the status is recreated from the store, the
  object of \<^verbatim>\<open>m2\<close> is created at the next index, and the pass ends with the requeue
  signal.
\<close>

lemma exTaken_run:
  "fst (CreateDatas memDeps exTaken) = Some (RequeueAfterError 0) \<and>
   Indexes (Status (DataTemplate (snd (CreateDatas memDeps exTaken)))) =
     Some (fmap_of_list [(''0'', ''m9''), (''1'', ''m2'')]) \<and>
   DataNames (Status (DataTemplate (snd (CreateDatas memDeps exTaken)))) =
     Some (fmap_of_list [(''m9'', ''tpl-0''), (''m2'', ''tpl-1'')]) \<and>
   map dataName (datas (client (snd (CreateDatas memDeps exTaken)))) = [''tpl-0'', ''tpl-1'']"
  by code_simp

subsection \<open>The deletion pass and objects that are not found\<close>













text \<open>
  The same pass, run: the template is owned by \<^verbatim>\<open>m2\<close> only, the object of \<^verbatim>\<open>m1\<close> is
  already gone from the store (the \<^verbatim>\<open>Get\<close> answers "not found") and the object of
  \<^verbatim>\<open>m3\<close> is deleted; both owners lose their entries, and the clock is read once.
\<close>

lemma exStale_run:
  "fst (DeleteDatas memDeps exStale) = None \<and>
   fst (clientGet memDeps (client exStale) (''tpl-0'', ''ns'')) = Inl NotFound \<and>
   Indexes (Status (DataTemplate (snd (DeleteDatas memDeps exStale)))) =
     Some (fmap_of_list [(''1'', ''m2'')]) \<and>
   DataNames (Status (DataTemplate (snd (DeleteDatas memDeps exStale)))) =
     Some (fmap_of_list [(''m2'', ''tpl-1'')]) \<and>
   map dataName (datas (client (snd (DeleteDatas memDeps exStale)))) = [''tpl-1''] \<and>
   clock (snd (DeleteDatas memDeps exStale)) = 1 \<and>
   indexCount (Indexes (Status (DataTemplate exStale))) ''m1'' = 1 \<and>
   indexCount (Indexes (Status (DataTemplate exStale))) ''m3'' = 1"
  by code_simp

subsection \<open>End to end\<close>

text \<open>
  C6. Over the in-memory store with the machines \<^verbatim>\<open>m1\<close> and \<^verbatim>\<open>m2\<close>, the template
  \<^verbatim>\<open>tpl\<close> with the cluster label, the owner references \<^verbatim>\<open>[m1, m2]\<close> and a \<^verbatim>\<open>nil\<close>
  status: the creation pass returns no error and leaves
  \<^verbatim>\<open>Indexes = {"0": "m1", "1": "m2"}\<close>, \<^verbatim>\<open>DataNames = {"m1": "tpl-0", "m2": "tpl-1"}\<close> and
  the two objects in the store. With \<^verbatim>\<open>m1\<close> removed from the owner references, the
  deletion pass returns no error and leaves \<^verbatim>\<open>Indexes = {"1": "m2"}\<close>,
  \<^verbatim>\<open>DataNames = {"m2": "tpl-1"}\<close>, and the store without \<^verbatim>\<open>tpl-0\<close>.
\<close>

theorem C6_end_to_end:
  "fst (CreateDatas memDeps exFresh) = None \<and>
   Indexes (Status (DataTemplate exCreated)) =
     Some (fmap_of_list [(''0'', ''m1''), (''1'', ''m2'')]) \<and>
   DataNames (Status (DataTemplate exCreated)) =
     Some (fmap_of_list [(''m1'', ''tpl-0''), (''m2'', ''tpl-1'')]) \<and>
   map dataName (datas (client exCreated)) = [''tpl-0'', ''tpl-1''] \<and>
   tplOwnerReferences (DataTemplate exReleased) = [exMachineRef ''m2''] \<and>
   fst (DeleteDatas memDeps exReleased) = None \<and>
   Indexes (Status (DataTemplate (snd (DeleteDatas memDeps exReleased)))) =
     Some (fmap_of_list [(''1'', ''m2'')]) \<and>
   DataNames (Status (DataTemplate (snd (DeleteDatas memDeps exReleased)))) =
     Some (fmap_of_list [(''m2'', ''tpl-1'')]) \<and>
   map dataName (datas (client (snd (DeleteDatas memDeps exReleased)))) = [''tpl-1'']"
  by code_simp


end
